theory Spec2Isabelle
  imports Complex_Main
begin

section \<open>Python strings\<close>

text \<open>
  A Python \<open>str\<close> is modelled as a \<open>string\<close> whose characters are ASCII code points.
  \<open>upper\<close>, \<open>lower\<close>, \<open>strip\<close>, \<open>split\<close>, \<open>in\<close>, \<open>startswith\<close> and \<open>count\<close> are
  the Python operations of the same name, restricted to ASCII text: case conversion only
  touches \<open>a\<close>..\<open>z\<close> and \<open>A\<close>..\<open>Z\<close>, and whitespace is the ASCII part of
  \<open>str.isspace\<close> (codes 9 to 13, 28 to 31 and 32). Text with code points above 127 is
  outside the model: Python also strips U+0085 and U+00A0 and folds the case of letters
  beyond ASCII.
\<close>

definition is_lower :: "char \<Rightarrow> bool" where
  "is_lower c = (let n = (of_char c :: nat) in 97 \<le> n \<and> n \<le> 122)"

definition is_upper :: "char \<Rightarrow> bool" where
  "is_upper c = (let n = (of_char c :: nat) in 65 \<le> n \<and> n \<le> 90)"

definition is_digit :: "char \<Rightarrow> bool" where
  "is_digit c = (let n = (of_char c :: nat) in 48 \<le> n \<and> n \<le> 57)"

definition is_space :: "char \<Rightarrow> bool" where
  "is_space c = (let n = (of_char c :: nat) in (9 \<le> n \<and> n \<le> 13) \<or> (28 \<le> n \<and> n \<le> 32))"

text \<open>In ASCII the two cases of a letter differ in bit 5 only.\<close>

definition upper_char :: "char \<Rightarrow> char" where
  "upper_char c =
     (if is_lower c
      then (case c of Char b0 b1 b2 b3 b4 b5 b6 b7 \<Rightarrow> Char b0 b1 b2 b3 b4 False b6 b7)
      else c)"

definition lower_char :: "char \<Rightarrow> char" where
  "lower_char c =
     (if is_upper c
      then (case c of Char b0 b1 b2 b3 b4 b5 b6 b7 \<Rightarrow> Char b0 b1 b2 b3 b4 True b6 b7)
      else c)"

definition upper :: "string \<Rightarrow> string" where
  "upper s = map upper_char s"

definition lower :: "string \<Rightarrow> string" where
  "lower s = map lower_char s"

definition strip :: "string \<Rightarrow> string" where
  "strip s = rev (dropWhile is_space (rev (dropWhile is_space s)))"

text \<open>\<open>s.split()[0]\<close> for a string that starts with a non-blank character.\<close>

definition first_word :: "string \<Rightarrow> string" where
  "first_word s = takeWhile (\<lambda>c. \<not> is_space c) (dropWhile is_space s)"

fun startswith :: "string \<Rightarrow> string \<Rightarrow> bool" where
  "startswith s [] = True"
| "startswith [] (p # ps) = False"
| "startswith (c # cs) (p # ps) = (c = p \<and> startswith cs ps)"

text \<open>\<open>contains s sub\<close> is Python's \<open>sub in s\<close>.\<close>

fun contains :: "string \<Rightarrow> string \<Rightarrow> bool" where
  "contains [] sub = (sub = [])"
| "contains (c # cs) sub = (startswith (c # cs) sub \<or> contains cs sub)"

text \<open>
  \<open>count_sub s sub\<close> is \<open>s.count(sub)\<close>: the occurrences of \<open>sub\<close> found from left
  to right without overlap; the empty string occurs \<open>len(s) + 1\<close> times.
\<close>

function count_sub :: "string \<Rightarrow> string \<Rightarrow> nat" where
  "count_sub s sub =
     (if sub = [] then Suc (length s)
      else if s = [] then 0
      else if startswith s sub then Suc (count_sub (drop (length sub) s) sub)
      else count_sub (tl s) sub)"
  by pat_completeness auto
termination
  by (relation "measure (\<lambda>(s, sub). length s)") auto

declare count_sub.simps [simp del]

definition sq :: string where
  "sq = [CHR 0x27]"

definition nl :: string where
  "nl = [CHR 0x0A]"

section \<open>The regular expressions of the injection check\<close>

text \<open>
  The six patterns handed to \<open>re.search\<close> are built from literal characters, the escape
  \<open>\\c\<close> and \<open>.*\<close> only. \<open>compile\<close> reads that fragment; \<open>.\<close> matches every character
  but the newline, and under \<open>re.IGNORECASE\<close> a literal matches both cases of a letter.
\<close>

datatype item = Lit char | AnyStar

fun compile :: "string \<Rightarrow> item list" where
  "compile [] = []"
| "compile [c] = [Lit c]"
| "compile (c # d # cs) =
     (if c = CHR 0x5C then Lit d # compile cs
      else if c = CHR ''.'' \<and> d = CHR ''*'' then AnyStar # compile cs
      else Lit c # compile (d # cs))"

text \<open>\<open>rmatch p s\<close>: the pattern matches a prefix of \<open>s\<close>.\<close>

fun rmatch :: "item list \<Rightarrow> string \<Rightarrow> bool" where
  "rmatch [] s = True"
| "rmatch (Lit c # ps) [] = False"
| "rmatch (Lit c # ps) (x # xs) = (lower_char c = lower_char x \<and> rmatch ps xs)"
| "rmatch (AnyStar # ps) [] = rmatch ps []"
| "rmatch (AnyStar # ps) (x # xs) =
     (rmatch ps (x # xs) \<or> (x \<noteq> CHR 0x0A \<and> rmatch (AnyStar # ps) xs))"

text \<open>\<open>re_search p s\<close>: \<open>re.search(p, s, re.IGNORECASE)\<close> finds a match.\<close>

fun re_search_items :: "item list \<Rightarrow> string \<Rightarrow> bool" where
  "re_search_items p [] = rmatch p []"
| "re_search_items p (c # cs) = (rmatch p (c # cs) \<or> re_search_items p cs)"

definition re_search :: "string \<Rightarrow> string \<Rightarrow> bool" where
  "re_search pattern s = re_search_items (compile pattern) s"

section \<open>SQLExecutor: security validation\<close>

record check =
  valid :: bool
  reason :: string

definition dangerous_keywords :: "string list" where
  "dangerous_keywords =
     [''DROP'', ''DELETE'', ''UPDATE'', ''INSERT'', ''ALTER'', ''CREATE'',
      ''TRUNCATE'', ''REPLACE'', ''MERGE'', ''GRANT'', ''REVOKE'',
      ''EXECUTE'', ''EXEC'', ''CALL'', ''DECLARE'', ''BEGIN'', ''END'']"

definition injection_patterns :: "string list" where
  "injection_patterns =
     [sq @ ''.*OR.*'' @ sq @ ''.*='' @ sq @ ''.*'' @ sq,
      sq @ ''.*UNION.*SELECT'',
      ''--'',
      ''/'' @ [CHR 0x5C] @ ''*.*'' @ [CHR 0x5C] @ ''*/'',
      ''xp_cmdshell'',
      ''sp_.*'']"

text \<open>The test of the keyword loop: \<open>f' {keyword} ' in f' {sql_upper} ' or sql_upper.startswith(keyword)\<close>.\<close>

definition keyword_hit :: "string \<Rightarrow> string \<Rightarrow> bool" where
  "keyword_hit sql_upper keyword =
     (contains ('' '' @ sql_upper @ '' '') ('' '' @ keyword @ '' '') \<or> startswith sql_upper keyword)"

definition validate_sql_security :: "string \<Rightarrow> check" where
  "validate_sql_security sql =
     (let sql_upper = strip (upper sql) in
      case find (keyword_hit sql_upper) dangerous_keywords of
        Some keyword \<Rightarrow>
          \<lparr>valid = False, reason = ''Dangerous keyword '' @ sq @ keyword @ sq @ '' not allowed''\<rparr>
      | None \<Rightarrow>
          if \<not> startswith sql_upper ''SELECT''
          then \<lparr>valid = False, reason = ''Only SELECT statements are allowed''\<rparr>
          else
            (case find (\<lambda>pattern. re_search pattern sql) injection_patterns of
               Some pattern \<Rightarrow>
                 \<lparr>valid = False, reason = ''Potential SQL injection detected: '' @ pattern\<rparr>
             | None \<Rightarrow>
                 if count_sub sql ''JOIN'' > 10
                 then \<lparr>valid = False, reason = ''Too many JOINs (max 10 allowed)''\<rparr>
                 else if count_sub sql ''SELECT'' > 5
                 then \<lparr>valid = False, reason = ''Too many subqueries (max 5 allowed)''\<rparr>
                 else \<lparr>valid = True, reason = ''Security validation passed''\<rparr>))"

section \<open>SQLExecutor: parsing and table access\<close>

text \<open>
  \<open>sqlparse\<close> is a library outside the repository. What the code reads of a parsed
  statement is \<open>statement.flatten()\<close>: a sequence of tokens, each with a token type
  (\<open>ttype\<close>, a path such as \<open>Keyword\<close> or \<open>Keyword.DML\<close>, or \<open>None\<close>) and a text.
  The parser is a parameter \<open>parse\<close>: it raises (\<open>Inl\<close>, with the message) or returns the
  statements, each as its flattened token list.
\<close>

record token =
  ttype :: "string list option"
  tvalue :: string

type_synonym statement = "token list"

type_synonym parser = "string \<Rightarrow> string + statement list"

definition Keyword :: "string list" where
  "Keyword = [''Keyword'']"

text \<open>\<open>ttype in Keyword\<close>: the type is \<open>Keyword\<close> or one of its subtypes; \<open>None\<close> is in no type.\<close>

definition ttype_in :: "string list option \<Rightarrow> string list \<Rightarrow> bool" where
  "ttype_in ty parent = (case ty of None \<Rightarrow> False | Some path \<Rightarrow> take (length parent) path = parent)"

fun get_query_type :: "statement \<Rightarrow> string" where
  "get_query_type [] = ''UNKNOWN''"
| "get_query_type (t # ts) =
     (if ttype_in (ttype t) Keyword then upper (tvalue t) else get_query_type ts)"

text \<open>The loop of \<open>_extract_tables\<close>; the first argument is \<open>from_seen\<close>.\<close>

fun extract_tables_loop :: "bool \<Rightarrow> statement \<Rightarrow> string list" where
  "extract_tables_loop from_seen [] = []"
| "extract_tables_loop from_seen (t # ts) =
     (if ttype t = Some Keyword \<and> upper (tvalue t) = ''FROM''
      then extract_tables_loop True ts
      else if from_seen \<and> ttype t = None \<and> strip (tvalue t) \<noteq> []
      then (let table_name = first_word (strip (tvalue t)) in
            if upper table_name \<notin> set [''WHERE'', ''JOIN'', ''LEFT'', ''RIGHT'', ''INNER'', ''OUTER'']
            then table_name # extract_tables_loop from_seen ts
            else extract_tables_loop from_seen ts)
      else extract_tables_loop from_seen ts)"

definition extract_tables :: "statement \<Rightarrow> string list" where
  "extract_tables statement = extract_tables_loop False statement"

text \<open>The loop of \<open>_extract_columns\<close>; the first argument is \<open>select_seen\<close>.\<close>

fun extract_columns_loop :: "bool \<Rightarrow> statement \<Rightarrow> string list" where
  "extract_columns_loop select_seen [] = []"
| "extract_columns_loop select_seen (t # ts) =
     (if ttype t = Some Keyword \<and> upper (tvalue t) = ''SELECT''
      then extract_columns_loop True ts
      else if select_seen \<and> ttype t = Some Keyword \<and> upper (tvalue t) = ''FROM''
      then []
      else if select_seen \<and> ttype t = None \<and> strip (tvalue t) \<noteq> []
      then (let col_name = strip (tvalue t) in
            if col_name \<noteq> '','' \<and> col_name \<noteq> ''*''
            then col_name # extract_columns_loop select_seen ts
            else extract_columns_loop select_seen ts)
      else extract_columns_loop select_seen ts)"

definition extract_columns :: "statement \<Rightarrow> string list" where
  "extract_columns statement = extract_columns_loop False statement"

text \<open>
  The dictionary \<open>_parse_and_validate_sql\<close> returns: \<open>{"valid": False, "reason": r}\<close> is
  \<open>Rejected r\<close>, and \<open>{"valid": True, "query_type": q, "tables": ts, "columns": cs}\<close> is
  \<open>QueryInfo q ts cs\<close>.
\<close>

datatype parsing_result = Rejected string | QueryInfo string "string list" "string list"

fun p_valid :: "parsing_result \<Rightarrow> bool" where
  "p_valid (Rejected r) = False"
| "p_valid (QueryInfo q ts cs) = True"

definition allowed_tables :: "string list" where
  "allowed_tables =
     [''DISTRICT_MASTER'', ''STATION_MASTER'', ''OFFICER_MASTER'',
      ''CRIME_TYPE_MASTER'', ''FIR'', ''ARREST'']"

definition parse_and_validate_sql :: "parser \<Rightarrow> string \<Rightarrow> parsing_result" where
  "parse_and_validate_sql parse sql =
     (case parse sql of
        Inl e \<Rightarrow> Rejected (''SQL parsing error: '' @ e)
      | Inr parsed \<Rightarrow>
          (case parsed of
             [] \<Rightarrow> Rejected ''Failed to parse SQL''
           | statement # rest \<Rightarrow>
               (let query_type = get_query_type statement;
                    tables = extract_tables statement;
                    columns = extract_columns statement
                in case find (\<lambda>table. upper table \<notin> set allowed_tables) tables of
                     Some table \<Rightarrow>
                       Rejected (''Access to table '' @ sq @ table @ sq @ '' not allowed'')
                   | None \<Rightarrow> QueryInfo query_type tables columns)))"

section \<open>SQLExecutor: execution and statistics\<close>

record execution_stats =
  total_queries :: nat
  successful_queries :: nat
  failed_queries :: nat
  avg_execution_time :: real

text \<open>
  The executor's state. \<open>engine\<close> holds when \<open>self.engine\<close> is not \<open>None\<close>. \<open>executed\<close>
  records the effect of \<open>_execute_with_timeout\<close>: the statements it was entered with,
  each with its parameters (\<open>params or {}\<close>), in order.
\<close>

record 'v executor =
  engine :: bool
  max_results :: nat
  stats :: execution_stats
  executed :: "(string \<times> (string \<times> 'v) list) list"

definition new_executor :: "bool \<Rightarrow> nat \<Rightarrow> 'v executor" where
  "new_executor has_engine row_limit =
     \<lparr>engine = has_engine, max_results = row_limit,
      stats = \<lparr>total_queries = 0, successful_queries = 0, failed_queries = 0,
               avg_execution_time = 0\<rparr>,
      executed = []\<rparr>"

datatype exn = SQLAlchemyError string | ZeroDivisionError

fun str :: "exn \<Rightarrow> string" where
  "str (SQLAlchemyError m) = m"
| "str ZeroDivisionError = ''float division by zero''"

text \<open>
  What the database does with one statement: the connection, the session timeout, the
  query or the fetch raises an \<open>Exception\<close> with a message, or the cursor has rows and
  column names.
\<close>

datatype 'v db_outcome = Raises string | Rows "'v list list" "string list"

text \<open>
  What one call of \<open>execute_sql\<close> reads from outside: the database's answer, the time
  elapsed since \<open>start_time\<close> when it is measured, and the clock for the time stamp.
\<close>

record 'v env =
  outcome :: "'v db_outcome"
  elapsed :: real
  now :: real

record metadata =
  query_type :: "string option"
  tables_accessed :: "string list option"
  timestamp :: real

record 'v response =
  success :: bool
  error :: "string option"
  results :: "(string \<times> 'v) list list"
  columns :: "string list"
  row_count :: nat
  execution_time :: real
  sql_executed :: "string option"
  metadata :: metadata

definition error_response :: "string \<Rightarrow> real \<Rightarrow> 'v response" where
  "error_response error_message time =
     \<lparr>success = False, error = Some error_message, results = [], columns = [],
      row_count = 0, execution_time = 0, sql_executed = None,
      metadata = \<lparr>query_type = None, tables_accessed = None, timestamp = time\<rparr>\<rparr>"

text \<open>
  \<open>_update_execution_stats\<close> changes a counter and then divides by \<open>total_queries\<close>; the
  division raises when that is zero, after the counter has changed.
\<close>

definition update_execution_stats ::
  "execution_stats \<Rightarrow> real \<Rightarrow> bool \<Rightarrow> exn option \<times> execution_stats" where
  "update_execution_stats st exec_time ok =
     (let st1 = (if ok then st\<lparr>successful_queries := successful_queries st + 1\<rparr>
                 else st\<lparr>failed_queries := failed_queries st + 1\<rparr>);
          total = total_queries st1;
          current_avg = avg_execution_time st1
      in if total = 0 then (Some ZeroDivisionError, st1)
         else (None, st1\<lparr>avg_execution_time :=
                 (current_avg * (real total - 1) + exec_time) / real total\<rparr>))"

text \<open>
  A Python \<open>dict\<close> built from pairs: a key keeps the place of its first occurrence and
  the value of its last.
\<close>

fun dict_set :: "'k \<Rightarrow> 'a \<Rightarrow> ('k \<times> 'a) list \<Rightarrow> ('k \<times> 'a) list" where
  "dict_set k v [] = [(k, v)]"
| "dict_set k v (entry # d) = (if fst entry = k then (k, v) # d else entry # dict_set k v d)"

definition dict_of :: "('k \<times> 'a) list \<Rightarrow> ('k \<times> 'a) list" where
  "dict_of pairs = foldl (\<lambda>d (k, v). dict_set k v d) [] pairs"

definition execute_with_timeout ::
  "'v executor \<Rightarrow> string \<Rightarrow> (string \<times> 'v) list option \<Rightarrow> 'v db_outcome \<Rightarrow>
     (exn + (string \<times> 'v) list list \<times> string list) \<times> 'v executor" where
  "execute_with_timeout s sql params db =
     (let s1 = s\<lparr>executed := executed s @ [(sql, case params of None \<Rightarrow> [] | Some ps \<Rightarrow> ps)]\<rparr>
      in case db of
           Raises m \<Rightarrow> (Inl (SQLAlchemyError (''Query execution failed: '' @ m)), s1)
         | Rows all_rows cols \<Rightarrow>
             (let rows = take (max_results s) all_rows;
                  data = map (\<lambda>row. dict_of (zip cols row)) rows
              in (Inr (data, cols), s1)))"

text \<open>The body of the \<open>try\<close> block of \<open>execute_sql\<close>.\<close>

definition execute_sql_try ::
  "parser \<Rightarrow> 'v executor \<Rightarrow> string \<Rightarrow> (string \<times> 'v) list option \<Rightarrow> 'v env \<Rightarrow>
     (exn + 'v response) \<times> 'v executor" where
  "execute_sql_try parse s sql params e =
     (let security_check = validate_sql_security sql in
      if \<not> valid security_check
      then (Inr (error_response (''Security validation failed: '' @ reason security_check) (now e)), s)
      else
        (case parse_and_validate_sql parse sql of
           Rejected r \<Rightarrow> (Inr (error_response (''SQL validation failed: '' @ r) (now e)), s)
         | QueryInfo qt tabs cols \<Rightarrow>
             (case execute_with_timeout s sql params (outcome e) of
                (Inl x, s1) \<Rightarrow> (Inl x, s1)
              | (Inr (data, names), s1) \<Rightarrow>
                  (case update_execution_stats (stats s1) (elapsed e) True of
                     (Some x, st) \<Rightarrow> (Inl x, s1\<lparr>stats := st\<rparr>)
                   | (None, st) \<Rightarrow>
                       (Inr \<lparr>success = True, error = None, results = data, columns = names,
                             row_count = length data, execution_time = elapsed e,
                             sql_executed = Some sql,
                             metadata = \<lparr>query_type = Some qt, tables_accessed = Some tabs,
                                         timestamp = now e\<rparr>\<rparr>,
                        s1\<lparr>stats := st\<rparr>)))))"

text \<open>
  \<open>execute_sql\<close>: \<open>Inl\<close> is an exception that leaves the method, \<open>Inr\<close> the dictionary it
  returns.
\<close>

definition execute_sql ::
  "parser \<Rightarrow> 'v executor \<Rightarrow> string \<Rightarrow> (string \<times> 'v) list option \<Rightarrow> 'v env \<Rightarrow>
     (exn + 'v response) \<times> 'v executor" where
  "execute_sql parse s sql params e =
     (if \<not> engine s
      then (Inr (error_response ''No database connection available'' (now e)), s)
      else
        (let s0 = s\<lparr>stats := (stats s)\<lparr>total_queries := total_queries (stats s) + 1\<rparr>\<rparr> in
         case execute_sql_try parse s0 sql params e of
           (Inr r, s1) \<Rightarrow> (Inr r, s1)
         | (Inl x, s1) \<Rightarrow>
             (case update_execution_stats (stats s1) (elapsed e) False of
                (Some y, st) \<Rightarrow> (Inl y, s1\<lparr>stats := st\<rparr>)
              | (None, st) \<Rightarrow> (Inr (error_response (str x) (now e)), s1\<lparr>stats := st\<rparr>))))"

text \<open>A call reaches the database when both validations accept the statement.\<close>

definition accepted :: "parser \<Rightarrow> string \<Rightarrow> bool" where
  "accepted parse sql =
     (valid (validate_sql_security sql) \<and> p_valid (parse_and_validate_sql parse sql))"

text \<open>A sequence of calls on one executor; a call is the statement, its parameters and its environment.\<close>

record 'v call =
  call_sql :: string
  call_params :: "(string \<times> 'v) list option"
  call_env :: "'v env"

fun run_calls :: "parser \<Rightarrow> 'v executor \<Rightarrow> 'v call list \<Rightarrow> 'v executor" where
  "run_calls parse s [] = s"
| "run_calls parse s (c # cs) =
     run_calls parse (snd (execute_sql parse s (call_sql c) (call_params c) (call_env c))) cs"

section \<open>NL2SQLProcessor\<close>

text \<open>
  The dictionary \<open>generate_sql\<close> returns has the keys \<open>sql\<close> and \<open>confidence\<close>, then
  either \<open>method\<close> and \<open>valid\<close> or \<open>error\<close>; an absent key is \<open>None\<close>. The literal
  \<open>0.9\<close> is the real number nine tenths.
\<close>

record translation =
  tr_sql :: string
  tr_confidence :: real
  tr_method :: "string option"
  tr_valid :: "bool option"
  tr_error :: "string option"

text \<open>\<open>str.title\<close>: a letter after a letter is lowered, any other letter is raised.\<close>

fun title_loop :: "bool \<Rightarrow> string \<Rightarrow> string" where
  "title_loop previous_is_cased [] = []"
| "title_loop previous_is_cased (c # cs) =
     (if is_lower c \<or> is_upper c
      then (if previous_is_cased then lower_char c else upper_char c) # title_loop True cs
      else c # title_loop False cs)"

definition title :: "string \<Rightarrow> string" where
  "title s = title_loop False s"

definition districts :: "string list" where
  "districts = [''guntur'', ''vijayawada'', ''visakhapatnam'', ''tirupati'', ''kurnool'']"

definition extract_district :: "string \<Rightarrow> string option" where
  "extract_district query = map_option title (find (\<lambda>district. contains query district) districts)"

definition indent :: "nat \<Rightarrow> string" where
  "indent n = replicate n (CHR '' '')"

definition district_summary_sql :: "string \<Rightarrow> string" where
  "district_summary_sql district =
     nl @ indent 16 @ ''SELECT ct.description as crime_type, COUNT(*) as count'' @
     nl @ indent 16 @ ''FROM FIR f'' @
     nl @ indent 16 @ ''JOIN DISTRICT_MASTER d ON f.district_id = d.district_id'' @
     nl @ indent 16 @ ''JOIN CRIME_TYPE_MASTER ct ON f.crime_type_id = ct.crime_type_id'' @
     nl @ indent 16 @ ''WHERE d.district_name = '' @ sq @ district @ sq @
     nl @ indent 16 @ ''GROUP BY ct.description'' @
     nl @ indent 16 @ ''ORDER BY count DESC'' @
     nl @ indent 16"

definition officer_performance_sql :: string where
  "officer_performance_sql =
     nl @ indent 12 @ ''SELECT o.officer_name, o.rank, COUNT(a.arrest_id) as arrests'' @
     nl @ indent 12 @ ''FROM OFFICER_MASTER o'' @
     nl @ indent 12 @ ''LEFT JOIN ARREST a ON o.officer_id = a.officer_id'' @
     nl @ indent 12 @ ''WHERE a.arrest_date >= TRUNC(SYSDATE, '' @ sq @ ''MM'' @ sq @ '')'' @
     nl @ indent 12 @ ''GROUP BY o.officer_name, o.rank'' @
     nl @ indent 12 @ ''ORDER BY arrests DESC'' @
     nl @ indent 12"

definition fir_today_sql :: string where
  "fir_today_sql =
     ''SELECT COUNT(*) as fir_count FROM FIR WHERE DATE(incident_date) = DATE(SYSDATE)''"

definition fir_month_sql :: string where
  "fir_month_sql =
     ''SELECT COUNT(*) as fir_count FROM FIR WHERE incident_date >= TRUNC(SYSDATE, '' @ sq @ ''MM'' @ sq @ '')''"

text \<open>
  The three tests of \<open>_rule_based_generation\<close>, in its order. Pattern 1 returns only when a
  district (a non-empty string) was found; pattern 3 only on \<open>today\<close> or \<open>month\<close>.
\<close>

definition pattern1 :: "string \<Rightarrow> string option" where
  "pattern1 query_lower =
     (if contains query_lower ''crimes'' \<and> contains query_lower ''district''
      then (case extract_district query_lower of
              Some district \<Rightarrow> if district \<noteq> [] then Some (district_summary_sql district) else None
            | None \<Rightarrow> None)
      else None)"

definition pattern2 :: "string \<Rightarrow> string option" where
  "pattern2 query_lower =
     (if contains query_lower ''officer'' \<and>
         (contains query_lower ''arrest'' \<or> contains query_lower ''performance'')
      then Some officer_performance_sql else None)"

definition pattern3 :: "string \<Rightarrow> string option" where
  "pattern3 query_lower =
     (if contains query_lower ''fir'' \<and> contains query_lower ''count''
      then (if contains query_lower ''today'' then Some fir_today_sql
            else if contains query_lower ''month'' then Some fir_month_sql
            else None)
      else None)"

definition rule_based_generation :: "string \<Rightarrow> string option" where
  "rule_based_generation query =
     (let query_lower = lower query in
      case pattern1 query_lower of
        Some s \<Rightarrow> Some s
      | None \<Rightarrow>
          (case pattern2 query_lower of
             Some s \<Rightarrow> Some s
           | None \<Rightarrow> pattern3 query_lower))"

text \<open>\<open>_validate_sql\<close>: the parser returns at least one statement; an exception is \<open>False\<close>.\<close>

definition validate_sql :: "parser \<Rightarrow> string \<Rightarrow> bool" where
  "validate_sql parse s = (case parse s of Inl e \<Rightarrow> False | Inr parsed \<Rightarrow> length parsed > 0)"

definition no_match :: translation where
  "no_match = \<lparr>tr_sql = [], tr_confidence = 0, tr_method = None, tr_valid = None,
               tr_error = Some ''No matching pattern''\<rparr>"

text \<open>
  \<open>generate_sql\<close>. Nothing in its \<open>try\<close> block raises on a string: \<open>_validate_sql\<close>
  catches what the parser raises.
\<close>

definition generate_sql :: "parser \<Rightarrow> string \<Rightarrow> translation" where
  "generate_sql parse query =
     (case rule_based_generation query of
        Some s \<Rightarrow>
          if s \<noteq> []
          then \<lparr>tr_sql = s, tr_confidence = 9 / 10, tr_method = Some ''rule_based'',
                tr_valid = Some (validate_sql parse s), tr_error = None\<rparr>
          else no_match
      | None \<Rightarrow> no_match)"

section \<open>QueryAgent\<close>

text \<open>
  The methods \<open>_add_join_to_sql\<close>, \<open>_add_table_aliases\<close>, \<open>_parse_complex_query\<close>,
  \<open>_add_complex_features\<close>, \<open>_identify_analytical_patterns\<close>, \<open>_add_analytical_features\<close>
  and \<open>_suggest_visualizations\<close> and the class \<open>SchemaManager\<close> are used by
  \<open>query_agent.py\<close> and defined elsewhere. They are parameters of the model, taken as
  functions that return; \<open>'j\<close> is the type of a join suggestion, whose \<open>"condition"\<close> entry
  \<open>join_condition\<close> reads, and \<open>'c\<close>, \<open>'p\<close>, \<open>'v\<close> are the types of the query components,
  the analytical patterns and the visualization suggestions.
\<close>

record ('j, 'c, 'p, 'v) helpers =
  suggest_joins_for_query :: "string list \<Rightarrow> 'j list"
  join_condition :: "'j \<Rightarrow> string"
  add_join_to_sql :: "string \<Rightarrow> 'j \<Rightarrow> string"
  add_table_aliases :: "string \<Rightarrow> string list \<Rightarrow> string"
  parse_complex_query :: "string \<Rightarrow> 'c"
  add_complex_features :: "string \<Rightarrow> 'c \<Rightarrow> string"
  identify_analytical_patterns :: "string \<Rightarrow> 'p"
  add_analytical_features :: "string \<Rightarrow> 'p \<Rightarrow> string"
  suggest_visualizations :: "'p \<Rightarrow> 'v"

subsection \<open>Table names\<close>

definition is_ident_start :: "char \<Rightarrow> bool" where
  "is_ident_start c = (is_lower c \<or> is_upper c \<or> c = CHR ''_'')"

definition is_ident_char :: "char \<Rightarrow> bool" where
  "is_ident_char c = (is_ident_start c \<or> is_digit c)"

text \<open>
  One match of \<open>(?:FROM|JOIN)\s+([A-Za-z_][A-Za-z0-9_]*)\<close> under \<open>re.IGNORECASE\<close> at the
  start of \<open>s\<close>: the captured name and the text after the match. Blanks and name
  characters are disjoint, so the greedy match is the only one.
\<close>

definition table_match :: "string \<Rightarrow> (string \<times> string) option" where
  "table_match s =
     (if upper (take 4 s) = ''FROM'' \<or> upper (take 4 s) = ''JOIN''
      then (let after = drop 4 s in
            case dropWhile is_space after of
              [] \<Rightarrow> None
            | c # cs \<Rightarrow>
                if takeWhile is_space after \<noteq> [] \<and> is_ident_start c
                then Some (c # takeWhile is_ident_char cs, dropWhile is_ident_char cs)
                else None)
      else None)"

lemma table_match_shorter: "table_match s = Some (name, rest) \<Longrightarrow> length rest < length s"
proof -
  assume m: "table_match s = Some (name, rest)"
  then obtain c cs where d: "dropWhile is_space (drop 4 s) = c # cs"
    and r: "rest = dropWhile is_ident_char cs"
    by (auto simp: table_match_def Let_def split: if_splits list.splits)
  have "length rest \<le> length cs" unfolding r by (rule length_dropWhile_le)
  also have "length cs < length (dropWhile is_space (drop 4 s))" by (simp add: d)
  also have "\<dots> \<le> length (drop 4 s)" by (rule length_dropWhile_le)
  also have "\<dots> \<le> length s" by simp
  finally show ?thesis .
qed

text \<open>\<open>re.findall\<close>: the matches from left to right, each search starting where the last match ended.\<close>

function findall_tables :: "string \<Rightarrow> string list" where
  "findall_tables s =
     (if s = [] then []
      else case table_match s of
             Some (name, rest) \<Rightarrow> name # findall_tables rest
           | None \<Rightarrow> findall_tables (tl s))"
  by pat_completeness auto
termination
  by (relation "measure length") (auto simp: table_match_shorter)

declare findall_tables.simps [simp del]

text \<open>
  \<open>list(set(matches))\<close>: the distinct names. Python leaves their order open; the model
  keeps the order of \<open>remdups\<close>.
\<close>

definition extract_table_names :: "string \<Rightarrow> string list" where
  "extract_table_names sql = remdups (findall_tables sql)"

subsection \<open>Schema enhancement\<close>

text \<open>
  \<open>_enhance_with_schema\<close>. The loop that fills \<open>schema_info\<close> has no effect on the result
  and is left out; the \<open>context\<close> argument is not read.
\<close>

definition enhance_with_schema :: "('j, 'c, 'p, 'v) helpers \<Rightarrow> string \<Rightarrow> string" where
  "enhance_with_schema h sql =
     (let mentioned_tables = extract_table_names sql;
          joined =
            (if length mentioned_tables > 1
             then foldl (\<lambda>text j. if \<not> contains text (join_condition h j)
                                    then add_join_to_sql h text j else text)
                        sql (suggest_joins_for_query h mentioned_tables)
             else sql)
      in add_table_aliases h joined mentioned_tables)"

subsection \<open>Validation of a generated query\<close>

record security_report =
  safe :: bool
  warnings :: "string list"

definition dangerous_ops :: "string list" where
  "dangerous_ops = [''DROP'', ''DELETE'', ''UPDATE'', ''INSERT'', ''ALTER'', ''CREATE'']"

definition check_query_security :: "string \<Rightarrow> security_report" where
  "check_query_security sql =
     (let sql_upper = upper sql;
          found = map (\<lambda>op. ''Dangerous operation detected: '' @ op)
                      (filter (\<lambda>op. contains sql_upper op) dangerous_ops) @
                  (if contains sql ''--'' \<or> contains sql ''/*''
                   then [''Potential SQL injection: comments detected''] else [])
      in \<lparr>safe = (length found = 0), warnings = found\<rparr>)"

definition check_query_performance :: "string \<Rightarrow> string list" where
  "check_query_performance sql =
     (if count_sub (upper sql) ''FROM'' > 1 \<and> \<not> contains (upper sql) ''WHERE''
      then [''Potential Cartesian product: multiple tables without WHERE clause''] else []) @
     (if list_ex (\<lambda>func. contains (upper sql) func) [''UPPER('', ''LOWER('', ''SUBSTR(''] 
      then [''Functions in WHERE clause may prevent index usage''] else [])"

record validation =
  syntax_valid :: bool
  security_valid :: bool
  performance_warnings :: "string list"
  semantic_warnings :: "string list"
  security_warnings :: "string list option"

definition validate_query :: "parser \<Rightarrow> string \<Rightarrow> validation" where
  "validate_query parse sql =
     (let security_check = check_query_security sql in
      \<lparr>syntax_valid = (case parse sql of Inl e \<Rightarrow> False | Inr parsed \<Rightarrow> parsed \<noteq> []),
       security_valid = safe security_check,
       performance_warnings = check_query_performance sql,
       semantic_warnings = [],
       security_warnings = (if \<not> safe security_check then Some (warnings security_check) else None)\<rparr>)"

definition estimate_result_size :: "string \<Rightarrow> (string \<times> string) list" where
  "estimate_result_size sql =
     [(''estimated_rows'', ''unknown''), (''confidence'', ''low''), (''method'', ''heuristic'')]"

record execution_plan =
  plan_available :: bool
  plan_reason :: string

definition get_execution_plan :: "string \<Rightarrow> execution_plan" where
  "get_execution_plan sql =
     \<lparr>plan_available = False, plan_reason = ''Execution plan analysis not implemented''\<rparr>"

definition get_optimization_suggestions :: "string \<Rightarrow> string list" where
  "get_optimization_suggestions sql =
     (if contains (upper sql) ''WHERE'' \<and> \<not> contains (upper sql) ''INDEX''
      then [''Consider adding indexes on WHERE clause columns''] else []) @
     (if contains (upper sql) ''SELECT *''
      then [''Consider selecting specific columns instead of *''] else []) @
     (if contains (upper sql) ''ORDER BY'' \<and> \<not> contains (upper sql) ''LIMIT''
      then [''ORDER BY without LIMIT may impact performance''] else [])"

definition get_query_suggestions :: "string \<Rightarrow> string list" where
  "get_query_suggestions failed_query =
     (let query_lower = lower failed_query in
      [''Try using simpler language'',
       ''Specify the exact table or data you'' @ sq @ ''re looking for'',
       ''Include specific date ranges or filters'',
       ''Use police-specific terms (FIR, SHO, district, etc.)''] @
      (if contains query_lower ''show'' \<or> contains query_lower ''display''
       then [''Try: '' @ sq @ ''List all crimes in [district name]'' @ sq] else []) @
      (if contains query_lower ''count'' \<or> contains query_lower ''how many''
       then [''Try: '' @ sq @ ''Count FIRs registered this month'' @ sq] else []) @
      (if contains query_lower ''officer''
       then [''Try: '' @ sq @ ''Show arrests made by officer [name]'' @ sq] else []))"

subsection \<open>Query generation\<close>

text \<open>
  The dictionary a generation method returns; a key the method does not set is \<open>None\<close>.
  \<open>sql\<close> and \<open>confidence\<close> are set on every path.
\<close>

record ('c, 'p, 'v) query_result =
  q_sql :: string
  q_confidence :: real
  q_error :: "string option"
  q_suggestions :: "string list option"
  q_original_sql :: "string option"
  q_method :: "string option"
  q_validation :: "validation option"
  q_estimated_rows :: "(string \<times> string) list option"
  q_execution_plan :: "execution_plan option"
  q_suggested_optimizations :: "string list option"
  q_complexity_level :: "string option"
  q_query_components :: "'c option"
  q_analytical_patterns :: "'p option"
  q_visualization_suggestions :: "'v option"

text \<open>
  A generation method returns its dictionary together with the statements it called
  \<open>_validate_query\<close> with, in order.
\<close>

definition generate_standard_query ::
  "('j, 'c, 'p, 'v) helpers \<Rightarrow> parser \<Rightarrow> string \<Rightarrow> ('c, 'p, 'v) query_result \<times> string list" where
  "generate_standard_query h parse query_text =
     (let sql_result = generate_sql parse query_text in
      if tr_valid sql_result \<noteq> Some True
      then (\<lparr>q_sql = [], q_confidence = 0,
             q_error = Some (case tr_error sql_result of Some m \<Rightarrow> m | None \<Rightarrow> ''SQL generation failed''),
             q_suggestions = Some (get_query_suggestions query_text),
             q_original_sql = None, q_method = None, q_validation = None,
             q_estimated_rows = None, q_execution_plan = None, q_suggested_optimizations = None,
             q_complexity_level = None, q_query_components = None,
             q_analytical_patterns = None, q_visualization_suggestions = None\<rparr>,
            [])
      else
        (let enhanced_sql = enhance_with_schema h (tr_sql sql_result);
             validation_result = validate_query parse enhanced_sql
         in (\<lparr>q_sql = enhanced_sql, q_confidence = tr_confidence sql_result,
               q_error = None, q_suggestions = None,
               q_original_sql = Some (tr_sql sql_result), q_method = tr_method sql_result,
               q_validation = Some validation_result,
               q_estimated_rows = Some (estimate_result_size enhanced_sql),
               q_execution_plan = Some (get_execution_plan enhanced_sql),
               q_suggested_optimizations = Some (get_optimization_suggestions enhanced_sql),
               q_complexity_level = None, q_query_components = None,
               q_analytical_patterns = None, q_visualization_suggestions = None\<rparr>,
             [enhanced_sql])))"

definition generate_complex_query ::
  "('j, 'c, 'p, 'v) helpers \<Rightarrow> parser \<Rightarrow> string \<Rightarrow> ('c, 'p, 'v) query_result \<times> string list" where
  "generate_complex_query h parse query_text =
     (let query_components = parse_complex_query h query_text;
          (base_result, validated) = generate_standard_query h parse query_text
      in if q_sql base_result = [] then (base_result, validated)
         else
           (let enhanced_sql = add_complex_features h (q_sql base_result) query_components
            in (base_result\<lparr>q_sql := enhanced_sql, q_complexity_level := Some ''high'',
                             q_query_components := Some query_components\<rparr>,
                validated)))"

definition generate_analytical_query ::
  "('j, 'c, 'p, 'v) helpers \<Rightarrow> parser \<Rightarrow> string \<Rightarrow> ('c, 'p, 'v) query_result \<times> string list" where
  "generate_analytical_query h parse query_text =
     (let patterns = identify_analytical_patterns h query_text;
          (base_result, validated) = generate_standard_query h parse query_text
      in if q_sql base_result = [] then (base_result, validated)
         else
           (let analytical_sql = add_analytical_features h (q_sql base_result) patterns
            in (base_result\<lparr>q_sql := analytical_sql, q_analytical_patterns := Some patterns,
                             q_visualization_suggestions := Some (suggest_visualizations h patterns)\<rparr>,
                validated)))"

text \<open>\<open>process\<close>: an unsupported query type raises \<open>ValueError\<close> (\<open>Inl\<close>, with the message).\<close>

definition process ::
  "('j, 'c, 'p, 'v) helpers \<Rightarrow> parser \<Rightarrow> string \<Rightarrow> string \<Rightarrow>
     string + ('c, 'p, 'v) query_result \<times> string list" where
  "process h parse query_text kind =
     (if kind = ''standard'' then Inr (generate_standard_query h parse query_text)
      else if kind = ''complex'' then Inr (generate_complex_query h parse query_text)
      else if kind = ''analytical'' then Inr (generate_analytical_query h parse query_text)
      else Inl (''Unsupported query type: '' @ kind))"

subsection \<open>The augmentation, from the specification\<close>

text \<open>
  Modelled from the spec: the augmentation methods \<open>_parse_complex_query\<close>,
  \<open>_identify_analytical_patterns\<close>, \<open>_add_complex_features\<close> and
  \<open>_add_analytical_features\<close>, which \<open>query_agent.py\<close> calls and the source does not
  define. The spec: the complex and analytical modes "apply mode-specific SQL augmentation
  (adding aggregation/grouping clauses derived from detected analytical keywords such as
  "trend", "compare", "top N")". The model detects the three keywords in the lowered text
  and adds one grouping clause per detected keyword. The spec does not give the text of a
  clause; \<open>grouping_clause\<close> writes \<open>GROUP BY\<close> and the keyword in its place.
\<close>

definition analytical_keywords :: "string list" where
  "analytical_keywords = [''trend'', ''compare'', ''top'']"

definition detect_analytical_keywords :: "string \<Rightarrow> string list" where
  "detect_analytical_keywords query_text =
     filter (\<lambda>keyword. contains (lower query_text) keyword) analytical_keywords"

definition grouping_clause :: "string \<Rightarrow> string" where
  "grouping_clause keyword = '' GROUP BY '' @ keyword"

definition add_grouping_clauses :: "string \<Rightarrow> string list \<Rightarrow> string" where
  "add_grouping_clauses sql keywords = sql @ concat (map grouping_clause keywords)"

text \<open>
  Modelled from the spec: the schema methods \<open>suggest_joins_for_query\<close>,
  \<open>_add_join_to_sql\<close> and \<open>_add_table_aliases\<close>, which the source does not define, for a
  catalog without join hints. The spec: the enhancer "must leave a single-table statement
  unchanged"; aliases are added "for columns that are ambiguous across multiple joined
  tables", of which a single-table statement has none. The model leaves every statement
  unchanged, which is what the spec says for the single-table statements used below.
  \<open>_suggest_visualizations\<close> belongs to the reporting the spec leaves out; it returns
  nothing here.
\<close>

definition spec_helpers :: "(unit, string list, string list, unit) helpers" where
  "spec_helpers =
     \<lparr>suggest_joins_for_query = (\<lambda>tables. []),
      join_condition = (\<lambda>j. []),
      add_join_to_sql = (\<lambda>text j. text),
      add_table_aliases = (\<lambda>text tables. text),
      parse_complex_query = detect_analytical_keywords,
      add_complex_features = add_grouping_clauses,
      identify_analytical_patterns = detect_analytical_keywords,
      add_analytical_features = add_grouping_clauses,
      suggest_visualizations = (\<lambda>patterns. ())\<rparr>"

section \<open>The patterns of the translator, by their keywords\<close>

text \<open>
  The spec describes a pattern by its required keywords and an optional slot. The
  keywords of the three patterns, and the slots of the first and the third, as tests on
  the lowered text:
\<close>

definition district_keywords :: "string \<Rightarrow> bool" where
  "district_keywords query =
     (contains (lower query) ''crimes'' \<and> contains (lower query) ''district'')"

definition district_named :: "string \<Rightarrow> bool" where
  "district_named query = list_ex (\<lambda>district. contains (lower query) district) districts"

definition officer_keywords :: "string \<Rightarrow> bool" where
  "officer_keywords query =
     (contains (lower query) ''officer'' \<and>
      (contains (lower query) ''arrest'' \<or> contains (lower query) ''performance''))"

definition fir_keywords :: "string \<Rightarrow> bool" where
  "fir_keywords query = (contains (lower query) ''fir'' \<and> contains (lower query) ''count'')"

definition period_named :: "string \<Rightarrow> bool" where
  "period_named query = (contains (lower query) ''today'' \<or> contains (lower query) ''month'')"

text \<open>A text is matched by a pattern, in the spec's words, when it contains the pattern's keywords.\<close>

definition keywords_match :: "string \<Rightarrow> bool" where
  "keywords_match query = (district_keywords query \<or> officer_keywords query \<or> fir_keywords query)"

text \<open>A pattern yields a statement when its slot, where it has one, is filled as well.\<close>

definition yields_statement :: "string \<Rightarrow> bool" where
  "yields_statement query =
     ((district_keywords query \<and> district_named query) \<or> officer_keywords query \<or>
      (fir_keywords query \<and> period_named query))"

section \<open>Auxiliary notions for the statements\<close>

text \<open>The states a call of \<open>execute_sql\<close> can leave behind.\<close>

definition bump_total :: "'v executor \<Rightarrow> 'v executor" where
  "bump_total s = s\<lparr>stats := (stats s)\<lparr>total_queries := total_queries (stats s) + 1\<rparr>\<rparr>"

definition logged :: "'v executor \<Rightarrow> string \<Rightarrow> (string \<times> 'v) list option \<Rightarrow> 'v executor" where
  "logged s sql params =
     s\<lparr>executed := executed s @ [(sql, case params of None \<Rightarrow> [] | Some ps \<Rightarrow> ps)]\<rparr>"

text \<open>The statistics after a call that reached the database and took time \<open>t\<close>.\<close>

definition recorded :: "execution_stats \<Rightarrow> real \<Rightarrow> bool \<Rightarrow> execution_stats" where
  "recorded st t ok =
     \<lparr>total_queries = total_queries st + 1,
      successful_queries = (if ok then successful_queries st + 1 else successful_queries st),
      failed_queries = (if ok then failed_queries st else failed_queries st + 1),
      avg_execution_time =
        (avg_execution_time st * real (total_queries st) + t) / real (total_queries st + 1)\<rparr>"

definition counters_ok :: "execution_stats \<Rightarrow> bool" where
  "counters_ok st = (successful_queries st + failed_queries st \<le> total_queries st)"

subsection \<open>Sample inputs\<close>

text \<open>
  The token streams \<open>sqlparse\<close> produces for a few statements: every token of a flattened
  statement carries the token type the lexer gave it.
\<close>

definition tok :: "string list \<Rightarrow> string \<Rightarrow> token" where
  "tok ty text = \<lparr>ttype = Some ty, tvalue = text\<rparr>"

definition sqlparse_sample :: parser where
  "sqlparse_sample sql =
     (if sql = ''SELECT 1''
      then Inr [[tok [''Keyword'', ''DML''] ''SELECT'', tok [''Text'', ''Whitespace''] '' '',
                 tok [''Literal'', ''Number'', ''Integer''] ''1'']]
      else if sql = ''SELECT * FROM SECRET_TABLE''
      then Inr [[tok [''Keyword'', ''DML''] ''SELECT'', tok [''Text'', ''Whitespace''] '' '',
                 tok [''Wildcard''] ''*'', tok [''Text'', ''Whitespace''] '' '',
                 tok [''Keyword''] ''FROM'', tok [''Text'', ''Whitespace''] '' '',
                 tok [''Name''] ''SECRET_TABLE'']]
      else Inr [])"

definition sample_rows_env :: "nat env" where
  "sample_rows_env = \<lparr>outcome = Rows [[1], [2]] [''n''], elapsed = 2, now = 100\<rparr>"

definition sample_raise_env :: "nat env" where
  "sample_raise_env = \<lparr>outcome = Raises ''ORA-01013: timeout'', elapsed = 4, now = 101\<rparr>"

definition sample_call :: "string \<Rightarrow> nat env \<Rightarrow> nat call" where
  "sample_call text e = \<lparr>call_sql = text, call_params = None, call_env = e\<rparr>"

text \<open>
  A stand-in for the parser where only the number of statements is read: as the parser
  does, it returns no statement for the empty text and a statement for any other.
\<close>

definition one_statement :: parser where
  "one_statement sql = (if sql = [] then Inr [] else Inr [[tok [''Other''] sql]])"

section \<open>Properties of SQLExecutor\<close>

lemma execute_sql_no_engine:
  "\<not> engine s \<Longrightarrow>
     execute_sql parse s sql params e =
       (Inr (error_response ''No database connection available'' (now e)), s)"
  by (simp add: execute_sql_def)

lemma execute_sql_insecure:
  "engine s \<Longrightarrow> \<not> valid (validate_sql_security sql) \<Longrightarrow>
     execute_sql parse s sql params e =
       (Inr (error_response (''Security validation failed: '' @ reason (validate_sql_security sql)) (now e)),
        bump_total s)"
  by (simp add: execute_sql_def execute_sql_try_def bump_total_def Let_def)

lemma execute_sql_rejected:
  "engine s \<Longrightarrow> valid (validate_sql_security sql) \<Longrightarrow>
   parse_and_validate_sql parse sql = Rejected r \<Longrightarrow>
     execute_sql parse s sql params e =
       (Inr (error_response (''SQL validation failed: '' @ r) (now e)), bump_total s)"
  by (simp add: execute_sql_def execute_sql_try_def bump_total_def Let_def)

lemma update_after_bump:
  "update_execution_stats (st\<lparr>total_queries := Suc (total_queries st)\<rparr>) t ok = (None, recorded st t ok)"
  by (simp add: update_execution_stats_def recorded_def Let_def)

lemma execute_sql_raises:
  "engine s \<Longrightarrow> valid (validate_sql_security sql) \<Longrightarrow>
   parse_and_validate_sql parse sql = QueryInfo qt tabs cols \<Longrightarrow> outcome e = Raises m \<Longrightarrow>
     execute_sql parse s sql params e =
       (Inr (error_response (''Query execution failed: '' @ m) (now e)),
        (logged s sql params)\<lparr>stats := recorded (stats s) (elapsed e) False\<rparr>)"
  by (simp add: execute_sql_def execute_sql_try_def execute_with_timeout_def Let_def
      logged_def update_after_bump)

lemma execute_sql_rows:
  "engine s \<Longrightarrow> valid (validate_sql_security sql) \<Longrightarrow>
   parse_and_validate_sql parse sql = QueryInfo qt tabs cols \<Longrightarrow> outcome e = Rows all_rows names \<Longrightarrow>
     execute_sql parse s sql params e =
       (Inr \<lparr>success = True, error = None,
             results = map (\<lambda>row. dict_of (zip names row)) (take (max_results s) all_rows),
             columns = names,
             row_count = length (take (max_results s) all_rows),
             execution_time = elapsed e, sql_executed = Some sql,
             metadata = \<lparr>query_type = Some qt, tables_accessed = Some tabs, timestamp = now e\<rparr>\<rparr>,
        (logged s sql params)\<lparr>stats := recorded (stats s) (elapsed e) True\<rparr>)"
  by (simp add: execute_sql_def execute_sql_try_def execute_with_timeout_def Let_def
      logged_def update_after_bump)

lemma accepted_QueryInfo:
  "accepted parse sql \<Longrightarrow>
     valid (validate_sql_security sql) \<and> (\<exists>qt tabs cols. parse_and_validate_sql parse sql = QueryInfo qt tabs cols)"
  by (cases "parse_and_validate_sql parse sql") (auto simp: accepted_def)

lemma not_accepted_cases:
  "\<not> accepted parse sql \<Longrightarrow>
     \<not> valid (validate_sql_security sql) \<or>
     (valid (validate_sql_security sql) \<and> (\<exists>r. parse_and_validate_sql parse sql = Rejected r))"
  by (cases "parse_and_validate_sql parse sql") (auto simp: accepted_def)

lemma execute_sql_not_accepted:
  assumes "engine s" "\<not> accepted parse sql"
  shows "\<exists>m. m \<noteq> [] \<and> execute_sql parse s sql params e = (Inr (error_response m (now e)), bump_total s)"
proof (cases "valid (validate_sql_security sql)")
  case False
  have "''Security validation failed: '' @ reason (validate_sql_security sql) \<noteq> []" by simp
  with execute_sql_insecure [OF assms(1) False, of parse params e]
  show ?thesis by blast
next
  case True
  with not_accepted_cases [OF assms(2)] obtain r
    where "parse_and_validate_sql parse sql = Rejected r" by blast
  from execute_sql_rejected [OF assms(1) True this, of params e]
  have "execute_sql parse s sql params e =
          (Inr (error_response (''SQL validation failed: '' @ r) (now e)), bump_total s)" .
  moreover have "''SQL validation failed: '' @ r \<noteq> []" by simp
  ultimately show ?thesis by blast
qed

lemma execute_sql_accepted:
  assumes "engine s" "accepted parse sql"
  shows "(\<exists>m. outcome e = Raises m \<and>
            execute_sql parse s sql params e =
              (Inr (error_response (''Query execution failed: '' @ m) (now e)),
               (logged s sql params)\<lparr>stats := recorded (stats s) (elapsed e) False\<rparr>)) \<or>
         (\<exists>r. (\<exists>rows names. outcome e = Rows rows names) \<and> success r \<and>
            execute_sql parse s sql params e =
              (Inr r, (logged s sql params)\<lparr>stats := recorded (stats s) (elapsed e) True\<rparr>))"
proof -
  from accepted_QueryInfo [OF assms(2)] obtain qt tabs cols
    where v: "valid (validate_sql_security sql)"
      and p: "parse_and_validate_sql parse sql = QueryInfo qt tabs cols" by blast
  show ?thesis
  proof (cases "outcome e")
    case (Raises m)
    then show ?thesis using execute_sql_raises [OF assms(1) v p Raises] by simp
  next
    case (Rows rows names)
    then show ?thesis using execute_sql_rows [OF assms(1) v p Rows] by simp
  qed
qed

text \<open>
  Claim C1. A call of \<open>execute_sql\<close> returns \<open>success = True\<close> only for a statement that
  passed the security validation and the parse and table validation, and it hands a
  statement to the database only in that case: the record of executed statements either
  stays as it was, or grows by exactly this statement, and then the statement was accepted.
\<close>

theorem execute_sql_validated_first:
  assumes "execute_sql parse s sql params e = (out, s')"
  shows "(\<forall>r. out = Inr r \<and> success r \<longrightarrow> accepted parse sql) \<and>
         (executed s' \<noteq> executed s \<longrightarrow>
            accepted parse sql \<and>
            executed s' = executed s @ [(sql, case params of None \<Rightarrow> [] | Some ps \<Rightarrow> ps)])"
proof (cases "engine s")
  case False
  then show ?thesis using assms by (auto simp: execute_sql_no_engine error_response_def)
next
  case True
  show ?thesis
  proof (cases "accepted parse sql")
    case False
    from execute_sql_not_accepted [OF True False, of params e] assms
    show ?thesis by (auto simp: error_response_def bump_total_def)
  next
    case acc: True
    from execute_sql_accepted [OF True acc, of e params] assms
    show ?thesis by (auto simp: acc logged_def)
  qed
qed

text \<open>
  Claim C5. \<open>execute_sql\<close> always returns a dictionary and never raises. A result without
  success carries a non-empty error message, no rows and \<open>row_count = 0\<close>. When the
  database raises, the result is without success, and its message is the database's
  message after \<open>Query execution failed: \<close>.
\<close>

theorem execute_sql_contains_exceptions:
  "\<exists>r. fst (execute_sql parse s sql params e) = Inr r \<and>
        (\<not> success r \<longrightarrow> (\<exists>m. error r = Some m \<and> m \<noteq> []) \<and> results r = [] \<and> row_count r = 0) \<and>
        (\<forall>m. outcome e = Raises m \<longrightarrow>
           \<not> success r \<and>
           (engine s \<and> accepted parse sql \<longrightarrow> error r = Some (''Query execution failed: '' @ m)))"
proof (cases "engine s")
  case False
  then show ?thesis by (simp add: execute_sql_no_engine error_response_def)
next
  case True
  show ?thesis
  proof (cases "accepted parse sql")
    case False
    from execute_sql_not_accepted [OF True False, of params e]
    show ?thesis by (auto simp: error_response_def False)
  next
    case acc: True
    from execute_sql_accepted [OF True acc, of e params]
    show ?thesis by (auto simp: error_response_def)
  qed
qed

lemma engine_execute_sql [simp]:
  "engine (snd (execute_sql parse s sql params e)) = engine s"
proof (cases "engine s")
  case False
  then show ?thesis by (simp add: execute_sql_no_engine)
next
  case True
  show ?thesis
  proof (cases "accepted parse sql")
    case False
    from execute_sql_not_accepted [OF True False, of params e]
    show ?thesis by (auto simp: bump_total_def)
  next
    case acc: True
    from execute_sql_accepted [OF True acc, of e params]
    show ?thesis by (auto simp: logged_def)
  qed
qed

lemma stats_execute_sql_accepted:
  assumes "engine s" "accepted parse sql"
  shows "\<exists>ok. stats (snd (execute_sql parse s sql params e)) = recorded (stats s) (elapsed e) ok"
  using execute_sql_accepted [OF assms, of e params] by (auto simp: logged_def)

lemma stats_execute_sql_not_accepted:
  assumes "engine s" "\<not> accepted parse sql"
  shows "stats (snd (execute_sql parse s sql params e)) =
           (stats s)\<lparr>total_queries := total_queries (stats s) + 1\<rparr>"
  using execute_sql_not_accepted [OF assms, of params e] by (auto simp: bump_total_def)

lemma counters_ok_execute_sql:
  assumes "counters_ok (stats s)"
  shows "counters_ok (stats (snd (execute_sql parse s sql params e)))"
proof (cases "engine s")
  case False
  then show ?thesis using assms by (simp add: execute_sql_no_engine)
next
  case True
  show ?thesis
  proof (cases "accepted parse sql")
    case False
    then show ?thesis using assms
      by (simp add: stats_execute_sql_not_accepted [OF True False] counters_ok_def)
  next
    case acc: True
    from stats_execute_sql_accepted [OF True acc, of params e] assms
    show ?thesis by (auto simp: counters_ok_def recorded_def)
  qed
qed

lemma counters_ok_run_calls:
  "counters_ok (stats s) \<Longrightarrow> counters_ok (stats (run_calls parse s calls))"
  by (induction calls arbitrary: s) (simp_all add: counters_ok_execute_sql)

lemma engine_run_calls [simp]: "engine (run_calls parse s calls) = engine s"
  by (induction calls arbitrary: s) simp_all

text \<open>
  Claim C10. In every state \<open>s\<close> an executor reaches from its initial state, the successful
  and failed calls together are at most \<open>total_queries\<close>. A further call with an engine adds
  one to \<open>total_queries\<close>; when the statement is rejected, the other counters and the
  average stay and the inequality is strict; when it is accepted, exactly one of the two
  counters grows by one. Without an engine the statistics are unchanged.
\<close>

theorem counters_of_execute_sql:
  fixes s s' :: "'v executor"
  assumes "s = run_calls parse (new_executor has_engine row_limit) calls"
      and "s' = snd (execute_sql parse s sql params e)"
  shows "successful_queries (stats s) + failed_queries (stats s) \<le> total_queries (stats s) \<and>
         (has_engine \<longrightarrow> total_queries (stats s') = total_queries (stats s) + 1) \<and>
         (has_engine \<and> \<not> accepted parse sql \<longrightarrow>
            successful_queries (stats s') = successful_queries (stats s) \<and>
            failed_queries (stats s') = failed_queries (stats s) \<and>
            avg_execution_time (stats s') = avg_execution_time (stats s) \<and>
            successful_queries (stats s') + failed_queries (stats s') < total_queries (stats s')) \<and>
         (has_engine \<and> accepted parse sql \<longrightarrow>
            successful_queries (stats s') + failed_queries (stats s') =
              successful_queries (stats s) + failed_queries (stats s) + 1) \<and>
         (\<not> has_engine \<longrightarrow> stats s' = stats s)"
proof -
  have eng: "engine s = has_engine" by (simp add: assms(1) new_executor_def)
  have "counters_ok (stats (new_executor has_engine row_limit :: 'v executor))"
    by (simp add: counters_ok_def new_executor_def)
  then have ok: "counters_ok (stats s)" unfolding assms(1) by (rule counters_ok_run_calls)
  have 1: "successful_queries (stats s) + failed_queries (stats s) \<le> total_queries (stats s)"
    using ok by (simp add: counters_ok_def)
  have 2: "total_queries (stats s') = total_queries (stats s) + 1" if "has_engine"
  proof (cases "accepted parse sql")
    case True
    from stats_execute_sql_accepted [OF _ True, of s params e] that eng
    show ?thesis by (auto simp: assms(2) recorded_def)
  next
    case False
    from stats_execute_sql_not_accepted [OF _ False, of s params e] that eng
    show ?thesis by (simp add: assms(2))
  qed
  have 3: "successful_queries (stats s') = successful_queries (stats s) \<and>
            failed_queries (stats s') = failed_queries (stats s) \<and>
            avg_execution_time (stats s') = avg_execution_time (stats s) \<and>
            successful_queries (stats s') + failed_queries (stats s') < total_queries (stats s')"
    if "has_engine" "\<not> accepted parse sql"
    using stats_execute_sql_not_accepted [OF _ that(2), of s params e] that(1) eng 1
    by (simp add: assms(2))
  have 4: "successful_queries (stats s') + failed_queries (stats s') =
              successful_queries (stats s) + failed_queries (stats s) + 1"
    if "has_engine" "accepted parse sql"
    using stats_execute_sql_accepted [OF _ that(2), of s params e] that(1) eng
    by (auto simp: assms(2) recorded_def)
  have 5: "stats s' = stats s" if "\<not> has_engine"
    using that eng by (simp add: assms(2) execute_sql_no_engine)
  from 1 2 3 4 5 show ?thesis by blast
qed

lemma run_calls_accepted:
  assumes "engine s" "\<forall>c \<in> set calls. accepted parse (call_sql c)"
  shows "total_queries (stats (run_calls parse s calls)) = total_queries (stats s) + length calls \<and>
         avg_execution_time (stats (run_calls parse s calls)) * real (total_queries (stats s) + length calls) =
           avg_execution_time (stats s) * real (total_queries (stats s)) +
           sum_list (map (\<lambda>c. elapsed (call_env c)) calls)"
  using assms
proof (induction calls arbitrary: s)
  case Nil
  then show ?case by simp
next
  case (Cons c cs)
  let ?s1 = "snd (execute_sql parse s (call_sql c) (call_params c) (call_env c))"
  from Cons.prems have acc: "accepted parse (call_sql c)" by simp
  from stats_execute_sql_accepted [OF Cons.prems(1) acc, of "call_params c" "call_env c"]
  obtain ok where st: "stats ?s1 = recorded (stats s) (elapsed (call_env c)) ok" by blast
  have e1: "engine ?s1" using Cons.prems(1) by simp
  have rest: "\<forall>c \<in> set cs. accepted parse (call_sql c)" using Cons.prems(2) by simp
  note ih = Cons.IH [OF e1 rest]
  have tot: "total_queries (stats ?s1) = total_queries (stats s) + 1"
    by (simp add: st recorded_def)
  have avg: "avg_execution_time (stats ?s1) * real (total_queries (stats ?s1)) =
               avg_execution_time (stats s) * real (total_queries (stats s)) + elapsed (call_env c)"
    by (simp add: st recorded_def)
  show ?case using ih tot avg by (simp add: algebra_simps)
qed

text \<open>
  Claim C6. On a new executor with an engine, after \<open>N \<ge> 1\<close> calls that each reach the
  database and so record a duration, \<open>avg_execution_time\<close> is the arithmetic mean of the
  \<open>N\<close> durations (in real arithmetic). Each such call computes
  \<open>(old_avg * (n - 1) + duration) / n\<close> with \<open>n\<close> the incremented \<open>total_queries\<close>.
\<close>

theorem average_is_mean:
  assumes "calls \<noteq> []" "\<forall>c \<in> set calls. accepted parse (call_sql c)"
  shows "avg_execution_time (stats (run_calls parse (new_executor True row_limit) calls)) =
           sum_list (map (\<lambda>c. elapsed (call_env c)) calls) / real (length calls) \<and>
         (\<forall>c \<in> set calls. \<forall>s. engine s \<longrightarrow>
            avg_execution_time
              (stats (snd (execute_sql parse s (call_sql c) (call_params c) (call_env c)))) =
            (avg_execution_time (stats s) * (real (total_queries (stats s) + 1) - 1) +
               elapsed (call_env c)) / real (total_queries (stats s) + 1))"
proof -
  have "engine (new_executor True row_limit :: 'a executor)" by (simp add: new_executor_def)
  from run_calls_accepted [OF this assms(2)]
  have "avg_execution_time (stats (run_calls parse (new_executor True row_limit) calls)) * real (length calls) =
          sum_list (map (\<lambda>c. elapsed (call_env c)) calls)"
    by (simp add: new_executor_def)
  moreover have "real (length calls) \<noteq> 0" using assms(1) by simp
  ultimately have mean:
    "avg_execution_time (stats (run_calls parse (new_executor True row_limit) calls)) =
       sum_list (map (\<lambda>c. elapsed (call_env c)) calls) / real (length calls)"
    by (simp add: field_simps)
  have step: "avg_execution_time
              (stats (snd (execute_sql parse s (call_sql c) (call_params c) (call_env c)))) =
            (avg_execution_time (stats s) * (real (total_queries (stats s) + 1) - 1) +
               elapsed (call_env c)) / real (total_queries (stats s) + 1)"
    if "c \<in> set calls" "engine s" for c and s :: "'a executor"
  proof -
    from that(1) assms(2) have "accepted parse (call_sql c)" by blast
    from stats_execute_sql_accepted [OF that(2) this, of "call_params c" "call_env c"]
    show ?thesis by (auto simp: recorded_def)
  qed
  from mean step show ?thesis by blast
qed

lemma select_one_valid: "valid (validate_sql_security ''SELECT 1'')"
  by code_simp

lemma select_one_parsed:
  "parse_and_validate_sql sqlparse_sample ''SELECT 1'' = QueryInfo ''SELECT'' [] []"
  by code_simp

lemma select_one_accepted: "accepted sqlparse_sample ''SELECT 1''"
  by (simp add: accepted_def select_one_valid select_one_parsed)

lemma drop_not_valid: "\<not> valid (validate_sql_security ''DROP TABLE FIR'')"
  by code_simp

lemma drop_not_accepted: "\<not> accepted sqlparse_sample ''DROP TABLE FIR''"
  by (simp add: accepted_def drop_not_valid)

text \<open>An accepted \<open>SELECT 1\<close> on a connected executor succeeds and is the one statement executed.\<close>

theorem execute_sql_validated_first_witness:
  "(\<exists>resp. fst (execute_sql sqlparse_sample (new_executor True 1000 :: nat executor)
                 ''SELECT 1'' None sample_rows_env) = Inr resp \<and> success resp) \<and>
   accepted sqlparse_sample ''SELECT 1'' \<and>
   executed (snd (execute_sql sqlparse_sample (new_executor True 1000 :: nat executor)
                 ''SELECT 1'' None sample_rows_env)) = [(''SELECT 1'', [])]"
proof -
  let ?s = "new_executor True 1000 :: nat executor"
  let ?r = "execute_sql sqlparse_sample ?s ''SELECT 1'' None sample_rows_env"
  have e: "engine ?s" by (simp add: new_executor_def)
  have o: "outcome sample_rows_env = Rows [[1], [2]] [''n'']" by (simp add: sample_rows_env_def)
  note run = execute_sql_rows [OF e select_one_valid select_one_parsed o, of None]
  have succ: "\<exists>resp. fst ?r = Inr resp \<and> success resp" by (simp add: run)
  have hyp: "?r = (fst ?r, snd ?r)" by simp
  note main = execute_sql_validated_first [OF hyp]
  from main succ have acc: "accepted sqlparse_sample ''SELECT 1''" by blast
  have "executed (snd ?r) = executed ?s @ [(''SELECT 1'', [])]"
    by (simp add: run logged_def)
  then have ex: "executed (snd ?r) = [(''SELECT 1'', [])]"
    by (simp add: new_executor_def)
  show ?thesis using succ acc ex by simp
qed

text \<open>A timeout raised by the database on an accepted statement.\<close>

theorem execute_sql_contains_exceptions_witness:
  "\<exists>r. fst (execute_sql sqlparse_sample (new_executor True 1000 :: nat executor)
               ''SELECT 1'' None sample_raise_env) = Inr r \<and>
        \<not> success r \<and> error r = Some ''Query execution failed: ORA-01013: timeout'' \<and>
        results r = [] \<and> row_count r = 0"
proof -
  let ?s = "new_executor True 1000 :: nat executor"
  have e: "engine ?s" by (simp add: new_executor_def)
  have o: "outcome sample_raise_env = Raises ''ORA-01013: timeout''"
    by (simp add: sample_raise_env_def)
  from execute_sql_contains_exceptions [of sqlparse_sample ?s "''SELECT 1''" None sample_raise_env]
  obtain r where r: "fst (execute_sql sqlparse_sample ?s ''SELECT 1'' None sample_raise_env) = Inr r"
    and f: "\<not> success r \<longrightarrow> (\<exists>m. error r = Some m \<and> m \<noteq> []) \<and> results r = [] \<and> row_count r = 0"
    and x: "\<forall>m. outcome sample_raise_env = Raises m \<longrightarrow>
              \<not> success r \<and> (engine ?s \<and> accepted sqlparse_sample ''SELECT 1'' \<longrightarrow>
                 error r = Some (''Query execution failed: '' @ m))"
    by blast
  from x o e select_one_accepted
  have "\<not> success r" and "error r = Some ''Query execution failed: ORA-01013: timeout''"
    by simp_all
  with r f show ?thesis by blast
qed

text \<open>Two accepted calls of 2 and 4 seconds average 3.\<close>

theorem average_is_mean_witness:
  "accepted sqlparse_sample (call_sql (sample_call ''SELECT 1'' sample_rows_env)) \<and>
   accepted sqlparse_sample (call_sql (sample_call ''SELECT 1'' sample_raise_env)) \<and>
   avg_execution_time (stats (run_calls sqlparse_sample (new_executor True 1000)
      [sample_call ''SELECT 1'' sample_rows_env, sample_call ''SELECT 1'' sample_raise_env])) = 3"
proof -
  let ?cs = "[sample_call ''SELECT 1'' sample_rows_env, sample_call ''SELECT 1'' sample_raise_env]"
  have ne: "?cs \<noteq> []" by simp
  have a1: "accepted sqlparse_sample (call_sql (sample_call ''SELECT 1'' sample_rows_env))"
    and a2: "accepted sqlparse_sample (call_sql (sample_call ''SELECT 1'' sample_raise_env))"
    by (simp_all add: sample_call_def select_one_accepted)
  then have acc: "\<forall>c \<in> set ?cs. accepted sqlparse_sample (call_sql c)" by simp
  from average_is_mean [OF ne acc, of 1000]
  have "avg_execution_time (stats (run_calls sqlparse_sample (new_executor True 1000) ?cs)) = 3"
    by (simp add: sample_call_def sample_rows_env_def sample_raise_env_def)
  with a1 a2 show ?thesis by blast
qed

text \<open>A rejected \<open>DROP TABLE FIR\<close> followed by an accepted \<open>SELECT 1\<close>.\<close>

theorem counters_of_execute_sql_witness:
  "total_queries (stats (run_calls sqlparse_sample (new_executor True 1000)
      [sample_call ''DROP TABLE FIR'' sample_rows_env])) = 1 \<and>
   successful_queries (stats (run_calls sqlparse_sample (new_executor True 1000)
      [sample_call ''DROP TABLE FIR'' sample_rows_env])) +
   failed_queries (stats (run_calls sqlparse_sample (new_executor True 1000)
      [sample_call ''DROP TABLE FIR'' sample_rows_env])) = 0 \<and>
   total_queries (stats (snd (execute_sql sqlparse_sample
      (run_calls sqlparse_sample (new_executor True 1000) [sample_call ''DROP TABLE FIR'' sample_rows_env])
      ''SELECT 1'' None sample_rows_env))) = 2 \<and>
   successful_queries (stats (snd (execute_sql sqlparse_sample
      (run_calls sqlparse_sample (new_executor True 1000) [sample_call ''DROP TABLE FIR'' sample_rows_env])
      ''SELECT 1'' None sample_rows_env))) +
   failed_queries (stats (snd (execute_sql sqlparse_sample
      (run_calls sqlparse_sample (new_executor True 1000) [sample_call ''DROP TABLE FIR'' sample_rows_env])
      ''SELECT 1'' None sample_rows_env))) = 1"
proof -
  let ?init = "new_executor True 1000 :: nat executor"
  let ?s = "run_calls sqlparse_sample ?init [sample_call ''DROP TABLE FIR'' sample_rows_env]"
  let ?s' = "snd (execute_sql sqlparse_sample ?s ''SELECT 1'' None sample_rows_env)"
  have e0: "engine ?init" by (simp add: new_executor_def)
  have st: "stats ?s = (stats ?init)\<lparr>total_queries := total_queries (stats ?init) + 1\<rparr>"
    using stats_execute_sql_not_accepted [OF e0 drop_not_accepted, of None sample_rows_env]
    by (simp add: sample_call_def)
  have i: "stats ?init = \<lparr>total_queries = 0, successful_queries = 0, failed_queries = 0,
                           avg_execution_time = 0\<rparr>"
    by (simp add: new_executor_def)
  have a: "total_queries (stats ?s) = 1"
    unfolding st i by simp
  have b: "successful_queries (stats ?s) + failed_queries (stats ?s) = 0"
    unfolding st i by simp
  note main = counters_of_execute_sql [OF refl refl, of sqlparse_sample True 1000
      "[sample_call ''DROP TABLE FIR'' sample_rows_env]" "''SELECT 1''" None sample_rows_env]
  from main select_one_accepted a b
  have "total_queries (stats ?s') = 2"
    and "successful_queries (stats ?s') + failed_queries (stats ?s') = 1"
    by simp_all
  with a b show ?thesis by blast
qed

subsection \<open>Where the validations fall short\<close>

text \<open>
  What the keyword loop does guarantee: a denylisted keyword that stands between two
  spaces of the stripped upper-case text, or at its start, is rejected, and the reason
  names a denylisted keyword.
\<close>

lemma keyword_hit_rejected:
  assumes "keyword \<in> set dangerous_keywords" "keyword_hit (strip (upper sql)) keyword"
  shows "\<not> valid (validate_sql_security sql) \<and>
         (\<exists>k \<in> set dangerous_keywords.
            reason (validate_sql_security sql) = ''Dangerous keyword '' @ sq @ k @ sq @ '' not allowed'')"
proof -
  from assms have "find (keyword_hit (strip (upper sql))) dangerous_keywords \<noteq> None"
    by (auto simp: find_None_iff)
  then obtain k where k: "find (keyword_hit (strip (upper sql))) dangerous_keywords = Some k"
    by blast
  then have "k \<in> set dangerous_keywords" by (auto simp: find_Some_iff)
  with k show ?thesis by (auto simp: validate_sql_security_def Let_def)
qed

text \<open>
  Claim C2 fails on the code. In \<open>SELECT * FROM FIR;DROP TABLE FIR\<close> the keyword \<open>DROP\<close>
  is a token of its own, after a semicolon; the keyword loop looks for \<open>DROP\<close> between
  spaces or at the start and finds neither, and the whole security validation accepts.
\<close>

theorem stacked_drop_passes_security:
  "validate_sql_security ''SELECT * FROM FIR;DROP TABLE FIR'' =
     \<lparr>valid = True, reason = ''Security validation passed''\<rparr>"
  by code_simp

text \<open>With a space after the semicolon the same statement is rejected, and the check of \<open>QueryAgent\<close> flags both.\<close>

lemma spaced_drop_fails_security:
  "validate_sql_security ''SELECT * FROM FIR; DROP TABLE FIR'' =
     \<lparr>valid = False, reason = ''Dangerous keyword '' @ sq @ ''DROP'' @ sq @ '' not allowed''\<rparr>"
  by code_simp

lemma stacked_drop_flagged_by_agent:
  "\<not> safe (check_query_security ''SELECT * FROM FIR;DROP TABLE FIR'')"
  by code_simp

text \<open>What the complexity check does guarantee: more than ten occurrences of upper-case \<open>JOIN\<close> are rejected.\<close>

lemma many_JOINs_rejected:
  "count_sub sql ''JOIN'' > 10 \<Longrightarrow> \<not> valid (validate_sql_security sql)"
  by (simp add: validate_sql_security_def Let_def split: option.splits)

lemma uppercase_joins_fail_security:
  "validate_sql_security
     ''SELECT 1 FROM FIR JOIN FIR JOIN FIR JOIN FIR JOIN FIR JOIN FIR JOIN FIR JOIN FIR JOIN FIR JOIN FIR JOIN FIR JOIN FIR'' =
     \<lparr>valid = False, reason = ''Too many JOINs (max 10 allowed)''\<rparr>"
  by code_simp

text \<open>
  Claim C7 fails on the code. The joins are counted as occurrences of upper-case \<open>JOIN\<close>
  in the text as given, while the keyword and \<open>SELECT\<close> tests before it fold the case:
  a statement with eleven joins written in lower case is accepted.
\<close>

theorem lowercase_joins_pass_security:
  "validate_sql_security
     ''SELECT 1 FROM FIR join FIR join FIR join FIR join FIR join FIR join FIR join FIR join FIR join FIR join FIR join FIR'' =
     \<lparr>valid = True, reason = ''Security validation passed''\<rparr>"
  by code_simp

lemma lowercase_joins_count:
  "count_sub (lower ''SELECT 1 FROM FIR join FIR join FIR join FIR join FIR join FIR join FIR join FIR join FIR join FIR join FIR join FIR'') ''join'' = 11"
  by code_simp

text \<open>
  \<open>_extract_tables\<close> takes a name only from a token whose type is \<open>None\<close>. A flattened
  statement has no such token, so no table is extracted and none is checked.
\<close>

lemma extract_tables_loop_typed:
  "\<forall>t \<in> set statement. ttype t \<noteq> None \<Longrightarrow> extract_tables_loop from_seen statement = []"
  by (induction statement arbitrary: from_seen) auto

lemma secret_valid: "valid (validate_sql_security ''SELECT * FROM SECRET_TABLE'')"
  by code_simp

lemma secret_parsed:
  "parse_and_validate_sql sqlparse_sample ''SELECT * FROM SECRET_TABLE'' = QueryInfo ''SELECT'' [] []"
  by code_simp

text \<open>
  Claim C3 fails on the code. \<open>SELECT * FROM SECRET_TABLE\<close> names a table outside the allow
  list; with the tokens the parser produces for it, the table validation accepts with an
  empty table list, and \<open>execute_sql\<close> hands the statement to the database and succeeds.
\<close>

theorem secret_table_is_executed:
  "parse_and_validate_sql sqlparse_sample ''SELECT * FROM SECRET_TABLE'' = QueryInfo ''SELECT'' [] [] \<and>
   (\<exists>r. fst (execute_sql sqlparse_sample (new_executor True 1000) ''SELECT * FROM SECRET_TABLE''
              None sample_rows_env) = Inr r \<and> success r) \<and>
   executed (snd (execute_sql sqlparse_sample (new_executor True 1000) ''SELECT * FROM SECRET_TABLE''
              None sample_rows_env)) = [(''SELECT * FROM SECRET_TABLE'', [])]"
proof -
  let ?s = "new_executor True 1000 :: nat executor"
  have e: "engine ?s" by (simp add: new_executor_def)
  have o: "outcome sample_rows_env = Rows [[1], [2]] [''n'']" by (simp add: sample_rows_env_def)
  note run = execute_sql_rows [OF e secret_valid secret_parsed o, of None]
  have "executed (snd (execute_sql sqlparse_sample ?s ''SELECT * FROM SECRET_TABLE'' None sample_rows_env)) =
          executed ?s @ [(''SELECT * FROM SECRET_TABLE'', [])]"
    by (simp add: run logged_def)
  then have "executed (snd (execute_sql sqlparse_sample ?s ''SELECT * FROM SECRET_TABLE'' None sample_rows_env)) =
          [(''SELECT * FROM SECRET_TABLE'', [])]"
    by (simp add: new_executor_def)
  moreover have "\<exists>r. fst (execute_sql sqlparse_sample ?s ''SELECT * FROM SECRET_TABLE'' None sample_rows_env) = Inr r \<and> success r"
    by (simp add: run)
  ultimately show ?thesis using secret_parsed by blast
qed

section \<open>Properties of NL2SQLProcessor\<close>

lemma title_loop_Nil_iff: "title_loop b s = [] \<longleftrightarrow> s = []"
  by (cases s) simp_all

lemma extract_district_nonempty: "extract_district text = Some d \<Longrightarrow> d \<noteq> []"
proof -
  assume "extract_district text = Some d"
  then obtain x where f: "find (\<lambda>district. contains text district) districts = Some x"
    and d: "d = title x"
    by (auto simp: extract_district_def)
  from f have "x \<in> set districts" by (auto simp: find_Some_iff)
  then have "x \<noteq> []" by (auto simp: districts_def)
  then show ?thesis by (simp add: d title_def title_loop_Nil_iff)
qed

lemma district_named_iff: "district_named query \<longleftrightarrow> extract_district (lower query) \<noteq> None"
  by (auto simp: district_named_def extract_district_def find_None_iff list_ex_iff)

lemma pattern1_eq:
  "pattern1 (lower query) =
     (if district_keywords query
      then map_option district_summary_sql (extract_district (lower query)) else None)"
  by (auto simp: pattern1_def district_keywords_def dest: extract_district_nonempty
      split: option.splits)

lemma pattern2_eq:
  "pattern2 (lower query) = (if officer_keywords query then Some officer_performance_sql else None)"
  by (simp add: pattern2_def officer_keywords_def)

lemma pattern3_eq:
  "pattern3 (lower query) =
     (if fir_keywords query \<and> contains (lower query) ''today'' then Some fir_today_sql
      else if fir_keywords query \<and> contains (lower query) ''month'' then Some fir_month_sql
      else None)"
  by (simp add: pattern3_def fir_keywords_def)

text \<open>The first pattern that yields a statement wins.\<close>

lemma rule_based_generation_eq:
  "rule_based_generation query =
     (if district_keywords query \<and> district_named query
      then map_option district_summary_sql (extract_district (lower query))
      else if officer_keywords query then Some officer_performance_sql
      else if fir_keywords query \<and> contains (lower query) ''today'' then Some fir_today_sql
      else if fir_keywords query \<and> contains (lower query) ''month'' then Some fir_month_sql
      else None)"
  unfolding rule_based_generation_def Let_def pattern1_eq pattern2_eq pattern3_eq
  by (auto simp: district_named_iff split: option.splits)

lemma rule_based_generation_None_iff:
  "rule_based_generation query = None \<longleftrightarrow> \<not> yields_statement query"
  unfolding rule_based_generation_eq
  by (auto simp: yields_statement_def period_named_def district_named_iff)

lemma sql_templates_nonempty:
  "district_summary_sql d \<noteq> []" "officer_performance_sql \<noteq> []" "fir_today_sql \<noteq> []"
  "fir_month_sql \<noteq> []"
  by (simp_all add: district_summary_sql_def officer_performance_sql_def fir_today_sql_def
      fir_month_sql_def nl_def)

lemma rule_based_generation_nonempty: "rule_based_generation query = Some s \<Longrightarrow> s \<noteq> []"
  unfolding rule_based_generation_eq
  by (auto simp: sql_templates_nonempty split: if_splits)

lemma generate_sql_no_statement:
  "\<not> yields_statement query \<Longrightarrow> generate_sql parse query = no_match"
  by (simp add: generate_sql_def rule_based_generation_None_iff [symmetric])

lemma generate_sql_statement:
  assumes "yields_statement query"
  shows "\<exists>s. rule_based_generation query = Some s \<and> s \<noteq> [] \<and>
             generate_sql parse query =
               \<lparr>tr_sql = s, tr_confidence = 9 / 10, tr_method = Some ''rule_based'',
                tr_valid = Some (validate_sql parse s), tr_error = None\<rparr>"
proof -
  from assms have "rule_based_generation query \<noteq> None"
    by (simp add: rule_based_generation_None_iff)
  then obtain s where s: "rule_based_generation query = Some s" by blast
  with rule_based_generation_nonempty [OF s] show ?thesis by (simp add: generate_sql_def)
qed

text \<open>
  Claim C8, amended. \<open>generate_sql\<close> is a function of the text (and of the parser, for
  \<open>valid\<close> only). It returns a non-empty statement with confidence \<open>0.9\<close> and method
  \<open>rule_based\<close> exactly for the texts that, in lower case, contain \<open>crimes\<close>,
  \<open>district\<close> and a district of the gazetteer, or \<open>officer\<close> and one of \<open>arrest\<close> and
  \<open>performance\<close>, or \<open>fir\<close>, \<open>count\<close> and one of \<open>today\<close> and \<open>month\<close>; the
  statement is that of the first such pattern. For every other text, also one that has
  the keywords of a pattern and not its slot, it returns \<open>sql = ""\<close>, \<open>confidence = 0\<close>
  and the error \<open>No matching pattern\<close>.
\<close>

theorem generate_sql_result:
  "(\<not> yields_statement query \<longrightarrow>
      generate_sql parse query =
        \<lparr>tr_sql = [], tr_confidence = 0, tr_method = None, tr_valid = None,
         tr_error = Some ''No matching pattern''\<rparr>) \<and>
   (yields_statement query \<longrightarrow>
      tr_sql (generate_sql parse query) \<noteq> [] \<and>
      tr_confidence (generate_sql parse query) = 9 / 10 \<and>
      tr_method (generate_sql parse query) = Some ''rule_based'' \<and>
      tr_valid (generate_sql parse query) = Some (validate_sql parse (tr_sql (generate_sql parse query))) \<and>
      tr_error (generate_sql parse query) = None) \<and>
   (district_keywords query \<and> district_named query \<longrightarrow>
      (\<exists>d. extract_district (lower query) = Some d \<and>
           tr_sql (generate_sql parse query) = district_summary_sql d)) \<and>
   (\<not> (district_keywords query \<and> district_named query) \<and> officer_keywords query \<longrightarrow>
      tr_sql (generate_sql parse query) = officer_performance_sql) \<and>
   (\<not> (district_keywords query \<and> district_named query) \<and> \<not> officer_keywords query \<and>
    fir_keywords query \<and> contains (lower query) ''today'' \<longrightarrow>
      tr_sql (generate_sql parse query) = fir_today_sql) \<and>
   (\<not> (district_keywords query \<and> district_named query) \<and> \<not> officer_keywords query \<and>
    fir_keywords query \<and> \<not> contains (lower query) ''today'' \<and> contains (lower query) ''month'' \<longrightarrow>
      tr_sql (generate_sql parse query) = fir_month_sql)"
proof -
  have a: "generate_sql parse query =
        \<lparr>tr_sql = [], tr_confidence = 0, tr_method = None, tr_valid = None,
         tr_error = Some ''No matching pattern''\<rparr>" if "\<not> yields_statement query"
    using generate_sql_no_statement [OF that, of parse] by (simp add: no_match_def)
  have b: "tr_sql (generate_sql parse query) \<noteq> [] \<and>
      tr_confidence (generate_sql parse query) = 9 / 10 \<and>
      tr_method (generate_sql parse query) = Some ''rule_based'' \<and>
      tr_valid (generate_sql parse query) = Some (validate_sql parse (tr_sql (generate_sql parse query))) \<and>
      tr_error (generate_sql parse query) = None" if "yields_statement query"
    using generate_sql_statement [OF that, of parse] by auto
  have sql: "tr_sql (generate_sql parse query) = s" if "rule_based_generation query = Some s" for s
    using that rule_based_generation_nonempty [OF that] by (simp add: generate_sql_def)
  have c: "\<exists>d. extract_district (lower query) = Some d \<and>
           tr_sql (generate_sql parse query) = district_summary_sql d"
    if "district_keywords query \<and> district_named query"
  proof -
    from that obtain d where d: "extract_district (lower query) = Some d"
      by (auto simp: district_named_iff)
    with that have "rule_based_generation query = Some (district_summary_sql d)"
      by (simp add: rule_based_generation_eq)
    from sql [OF this] d show ?thesis by blast
  qed
  have d: "tr_sql (generate_sql parse query) = officer_performance_sql"
    if "\<not> (district_keywords query \<and> district_named query) \<and> officer_keywords query"
    using that by (intro sql) (auto simp: rule_based_generation_eq)
  have e: "tr_sql (generate_sql parse query) = fir_today_sql"
    if "\<not> (district_keywords query \<and> district_named query) \<and> \<not> officer_keywords query \<and>
        fir_keywords query \<and> contains (lower query) ''today''"
    using that by (intro sql) (auto simp: rule_based_generation_eq)
  have f: "tr_sql (generate_sql parse query) = fir_month_sql"
    if "\<not> (district_keywords query \<and> district_named query) \<and> \<not> officer_keywords query \<and>
        fir_keywords query \<and> \<not> contains (lower query) ''today'' \<and> contains (lower query) ''month''"
    using that by (intro sql) (auto simp: rule_based_generation_eq)
  from a b c d e f show ?thesis by blast
qed

lemma hello_yields_nothing: "\<not> yields_statement ''hello''"
  by code_simp

lemma fir_today_yields: "yields_statement ''count fir today''"
  by code_simp

lemma fir_today_tests:
  "\<not> district_keywords ''count fir today''" "\<not> officer_keywords ''count fir today''"
  "fir_keywords ''count fir today''" "contains (lower ''count fir today'') ''today''"
  by code_simp+

lemma guntur_tests:
  "district_keywords ''Show crimes in Guntur district''"
  "district_named ''Show crimes in Guntur district''"
  "extract_district (lower ''Show crimes in Guntur district'') = Some ''Guntur''"
  by code_simp+

text \<open>The cases at \<open>hello\<close>, at \<open>count fir today\<close> and at \<open>Show crimes in Guntur district\<close>.\<close>

theorem generate_sql_result_witness:
  "generate_sql sqlparse_sample ''hello'' =
     \<lparr>tr_sql = [], tr_confidence = 0, tr_method = None, tr_valid = None,
      tr_error = Some ''No matching pattern''\<rparr> \<and>
   tr_sql (generate_sql sqlparse_sample ''count fir today'') = fir_today_sql \<and>
   tr_confidence (generate_sql sqlparse_sample ''count fir today'') = 9 / 10 \<and>
   tr_method (generate_sql sqlparse_sample ''count fir today'') = Some ''rule_based'' \<and>
   tr_sql (generate_sql sqlparse_sample ''Show crimes in Guntur district'') =
     district_summary_sql ''Guntur''"
  using generate_sql_result [of "''hello''" sqlparse_sample]
    generate_sql_result [of "''count fir today''" sqlparse_sample]
    generate_sql_result [of "''Show crimes in Guntur district''" sqlparse_sample]
    hello_yields_nothing fir_today_yields fir_today_tests guntur_tests
  by simp

lemma unfilled_slot_tests:
  "keywords_match ''show crimes by district''" "\<not> yields_statement ''show crimes by district''"
  "keywords_match ''FIR count''" "\<not> yields_statement ''FIR count''"
  by code_simp+

text \<open>
  Claim C8 as stated fails twice. The message starts with a capital letter. And a text
  that contains the keywords of a pattern is not always translated:
  \<open>show crimes by district\<close> names no district of the gazetteer, \<open>FIR count\<close>
  neither \<open>today\<close> nor \<open>month\<close>, and both get confidence \<open>0\<close>.
\<close>

theorem generate_sql_counterexample:
  "tr_error (generate_sql sqlparse_sample ''hello'') \<noteq> Some ''no matching pattern'' \<and>
   keywords_match ''show crimes by district'' \<and>
   tr_confidence (generate_sql sqlparse_sample ''show crimes by district'') \<noteq> 9 / 10 \<and>
   keywords_match ''FIR count'' \<and>
   tr_confidence (generate_sql sqlparse_sample ''FIR count'') \<noteq> 9 / 10"
  by (simp add: generate_sql_no_statement hello_yields_nothing unfilled_slot_tests no_match_def)

section \<open>Properties of QueryAgent\<close>

lemma translation_valid_iff:
  "tr_valid (generate_sql parse text) \<noteq> Some True \<longleftrightarrow>
     \<not> yields_statement text \<or> \<not> validate_sql parse (tr_sql (generate_sql parse text))"
proof (cases "yields_statement text")
  case False
  then show ?thesis by (simp add: generate_sql_no_statement no_match_def)
next
  case True
  from generate_sql_statement [OF True, of parse] show ?thesis using True by auto
qed

lemma standard_without_sql:
  "tr_valid (generate_sql parse text) \<noteq> Some True \<Longrightarrow>
     q_sql (fst (generate_standard_query h parse text)) = []"
  by (simp add: generate_standard_query_def Let_def)

lemma standard_with_sql:
  assumes "q_sql (fst (generate_standard_query h parse text)) \<noteq> []"
  shows "q_validation (fst (generate_standard_query h parse text)) =
           Some (validate_query parse (q_sql (fst (generate_standard_query h parse text))))"
    and "snd (generate_standard_query h parse text) =
           [q_sql (fst (generate_standard_query h parse text))]"
  using assms by (simp_all add: generate_standard_query_def Let_def split: if_splits)

text \<open>
  Claim C4, amended. The complex and the analytical mode run the standard generation.
  When the translator has no statement for the text, or one the parser does not accept,
  the standard result has empty SQL, and on empty SQL both modes return the standard
  result unchanged, with the same calls of the validator. Otherwise the result is the
  standard result with the SQL replaced by the augmented one and the fields of the mode
  added; its validation report is the one computed for the SQL before the augmentation,
  and the validator was called with that SQL and with nothing else.
\<close>

theorem augmented_modes:
  fixes h :: "('j, 'c, 'p, 'v) helpers"
  assumes "standard = generate_standard_query h parse text"
  shows
  "process h parse text ''complex'' = Inr (generate_complex_query h parse text) \<and>
   process h parse text ''analytical'' = Inr (generate_analytical_query h parse text) \<and>
   (\<not> yields_statement text \<or> \<not> validate_sql parse (tr_sql (generate_sql parse text)) \<longrightarrow>
      q_sql (fst standard) = []) \<and>
   (q_sql (fst standard) = [] \<longrightarrow>
      generate_complex_query h parse text = standard \<and>
      generate_analytical_query h parse text = standard) \<and>
   (q_sql (fst standard) \<noteq> [] \<longrightarrow>
      fst (generate_complex_query h parse text) =
        (fst standard)\<lparr>q_sql := add_complex_features h (q_sql (fst standard)) (parse_complex_query h text),
                        q_complexity_level := Some ''high'',
                        q_query_components := Some (parse_complex_query h text)\<rparr> \<and>
      fst (generate_analytical_query h parse text) =
        (fst standard)\<lparr>q_sql := add_analytical_features h (q_sql (fst standard))
                                   (identify_analytical_patterns h text),
                        q_analytical_patterns := Some (identify_analytical_patterns h text),
                        q_visualization_suggestions :=
                          Some (suggest_visualizations h (identify_analytical_patterns h text))\<rparr> \<and>
      q_validation (fst (generate_complex_query h parse text)) =
        Some (validate_query parse (q_sql (fst standard))) \<and>
      q_validation (fst (generate_analytical_query h parse text)) =
        Some (validate_query parse (q_sql (fst standard))) \<and>
      snd (generate_complex_query h parse text) = [q_sql (fst standard)] \<and>
      snd (generate_analytical_query h parse text) = [q_sql (fst standard)])"
proof -
  have p: "process h parse text ''complex'' = Inr (generate_complex_query h parse text)"
    "process h parse text ''analytical'' = Inr (generate_analytical_query h parse text)"
    by (simp_all add: process_def)
  have i: "q_sql (fst standard) = []"
    if "\<not> yields_statement text \<or> \<not> validate_sql parse (tr_sql (generate_sql parse text))"
    using that unfolding assms
    by (intro standard_without_sql) (simp add: translation_valid_iff)
  have e: "generate_complex_query h parse text = standard \<and>
           generate_analytical_query h parse text = standard"
    if "q_sql (fst standard) = []"
    using that unfolding assms
    by (simp add: generate_complex_query_def generate_analytical_query_def Let_def
        case_prod_beta prod_eq_iff)
  have n: "fst (generate_complex_query h parse text) =
        (fst standard)\<lparr>q_sql := add_complex_features h (q_sql (fst standard)) (parse_complex_query h text),
                        q_complexity_level := Some ''high'',
                        q_query_components := Some (parse_complex_query h text)\<rparr> \<and>
      fst (generate_analytical_query h parse text) =
        (fst standard)\<lparr>q_sql := add_analytical_features h (q_sql (fst standard))
                                   (identify_analytical_patterns h text),
                        q_analytical_patterns := Some (identify_analytical_patterns h text),
                        q_visualization_suggestions :=
                          Some (suggest_visualizations h (identify_analytical_patterns h text))\<rparr> \<and>
      q_validation (fst (generate_complex_query h parse text)) =
        Some (validate_query parse (q_sql (fst standard))) \<and>
      q_validation (fst (generate_analytical_query h parse text)) =
        Some (validate_query parse (q_sql (fst standard))) \<and>
      snd (generate_complex_query h parse text) = [q_sql (fst standard)] \<and>
      snd (generate_analytical_query h parse text) = [q_sql (fst standard)]"
    if "q_sql (fst standard) \<noteq> []"
  proof -
    from that have ne: "q_sql (fst (generate_standard_query h parse text)) \<noteq> []"
      by (simp add: assms)
    from ne standard_with_sql [OF ne] show ?thesis unfolding assms
      by (simp add: generate_complex_query_def generate_analytical_query_def Let_def
          case_prod_beta)
  qed
  from p i e n show ?thesis by blast
qed

lemma top_fir_today: "rule_based_generation ''top fir count today'' = Some fir_today_sql"
  by code_simp

lemma top_detected: "detect_analytical_keywords ''top fir count today'' = [''top'']"
  by code_simp

lemma hello_none: "rule_based_generation ''hello'' = None"
  by code_simp

lemma standard_top_fir_today:
  "q_sql (fst (generate_standard_query spec_helpers one_statement ''top fir count today'')) =
     fir_today_sql"
  by (simp add: generate_standard_query_def generate_sql_def top_fir_today validate_sql_def
      one_statement_def enhance_with_schema_def spec_helpers_def Let_def sql_templates_nonempty)

lemma standard_hello:
  "q_sql (fst (generate_standard_query spec_helpers one_statement ''hello'')) = []"
  by (simp add: generate_standard_query_def generate_sql_def hello_none no_match_def)

lemma complex_top_fir_today:
  "generate_complex_query spec_helpers one_statement ''top fir count today'' =
     ((fst (generate_standard_query spec_helpers one_statement ''top fir count today''))
        \<lparr>q_sql := fir_today_sql @ '' GROUP BY top'', q_complexity_level := Some ''high'',
         q_query_components := Some [''top'']\<rparr>,
      [fir_today_sql])"
proof -
  have ne: "q_sql (fst (generate_standard_query spec_helpers one_statement ''top fir count today'')) \<noteq> []"
    by (simp add: standard_top_fir_today sql_templates_nonempty)
  have h: "parse_complex_query spec_helpers = detect_analytical_keywords"
    "add_complex_features spec_helpers = add_grouping_clauses"
    by (simp_all add: spec_helpers_def)
  from ne standard_with_sql(2) [OF ne] show ?thesis
    by (simp add: generate_complex_query_def Let_def h top_detected standard_top_fir_today
        add_grouping_clauses_def grouping_clause_def case_prod_beta)
qed

text \<open>The two cases at \<open>top fir count today\<close> and at \<open>hello\<close>, with the augmentation of the spec.\<close>

theorem augmented_modes_witness:
  "q_sql (fst (generate_standard_query spec_helpers one_statement ''top fir count today'')) =
     fir_today_sql \<and>
   q_sql (fst (generate_complex_query spec_helpers one_statement ''top fir count today'')) =
     fir_today_sql @ '' GROUP BY top'' \<and>
   q_validation (fst (generate_complex_query spec_helpers one_statement ''top fir count today'')) =
     Some (validate_query one_statement fir_today_sql) \<and>
   snd (generate_complex_query spec_helpers one_statement ''top fir count today'') =
     [fir_today_sql] \<and>
   generate_complex_query spec_helpers one_statement ''hello'' =
     generate_standard_query spec_helpers one_statement ''hello''"
proof -
  have ne: "q_sql (fst (generate_standard_query spec_helpers one_statement ''top fir count today'')) \<noteq> []"
    by (simp add: standard_top_fir_today sql_templates_nonempty)
  have h: "parse_complex_query spec_helpers ''top fir count today'' = [''top'']"
    "add_complex_features spec_helpers fir_today_sql [''top''] = fir_today_sql @ '' GROUP BY top''"
    by (simp_all add: spec_helpers_def top_detected add_grouping_clauses_def grouping_clause_def)
  note main = augmented_modes [OF refl, of spec_helpers one_statement "''top fir count today''"]
  from main ne
  have c: "fst (generate_complex_query spec_helpers one_statement ''top fir count today'') =
        (fst (generate_standard_query spec_helpers one_statement ''top fir count today''))
          \<lparr>q_sql := add_complex_features spec_helpers
               (q_sql (fst (generate_standard_query spec_helpers one_statement ''top fir count today'')))
               (parse_complex_query spec_helpers ''top fir count today''),
           q_complexity_level := Some ''high'',
           q_query_components := Some (parse_complex_query spec_helpers ''top fir count today'')\<rparr>"
    and v: "q_validation (fst (generate_complex_query spec_helpers one_statement ''top fir count today'')) =
        Some (validate_query one_statement
          (q_sql (fst (generate_standard_query spec_helpers one_statement ''top fir count today''))))"
    and l: "snd (generate_complex_query spec_helpers one_statement ''top fir count today'') =
        [q_sql (fst (generate_standard_query spec_helpers one_statement ''top fir count today''))]"
    by blast+
  have "q_sql (fst (generate_complex_query spec_helpers one_statement ''top fir count today'')) =
          fir_today_sql @ '' GROUP BY top''"
    unfolding c by (simp add: standard_top_fir_today h)
  moreover have "q_validation (fst (generate_complex_query spec_helpers one_statement ''top fir count today'')) =
          Some (validate_query one_statement fir_today_sql)"
    unfolding v by (simp add: standard_top_fir_today)
  moreover have "snd (generate_complex_query spec_helpers one_statement ''top fir count today'') =
          [fir_today_sql]"
    unfolding l by (simp add: standard_top_fir_today)
  moreover from augmented_modes [OF refl, of spec_helpers one_statement "''hello''"] standard_hello
  have "generate_complex_query spec_helpers one_statement ''hello'' =
          generate_standard_query spec_helpers one_statement ''hello''"
    by blast
  ultimately show ?thesis using standard_top_fir_today by blast
qed

text \<open>
  Claim C4 as stated fails: the augmented SQL is not validated again. With the
  augmentation of the spec, the SQL returned for \<open>top fir count today\<close> in complex mode
  is not among the statements the validator was called with.
\<close>

theorem augmented_sql_not_revalidated:
  "q_sql (fst (generate_complex_query spec_helpers one_statement ''top fir count today'')) \<notin>
     set (snd (generate_complex_query spec_helpers one_statement ''top fir count today''))"
  by (simp add: complex_top_fir_today)

end
